theory Spec2Isabelle
  imports Complex_Main "HOL-Library.Log_Nat"
begin

section \<open>Python numbers\<close>

text \<open>
  Python integers are unbounded and are modelled by \<open>int\<close>. A Python float is an IEEE
  binary64 number; its value is a rational, and every float operation returns the exact
  result rounded to the nearest float, ties to even. \<open>fl\<close> is that rounding on
  rationals: \<open>expo x\<close> is the binary exponent of a positive \<open>x\<close>, the mantissa
  \<open>x / 2 ^ (expo x - 52)\<close> lies in [2^52, 2^53) and is rounded by \<open>rne\<close>. The
  exponent range is not bounded here: overflow to infinity, subnormal numbers and NaN
  are outside the model (magnitudes between 1e-308 and 1e308 are inside it).
\<close>

definition expo :: "rat \<Rightarrow> int" where
  "expo x = (if 1 \<le> x then bitlen \<lfloor>x\<rfloor> - 1 else - bitlen (\<lceil>1 / x\<rceil> - 1))"

definition rne :: "rat \<Rightarrow> int" where
  "rne m = (let f = \<lfloor>m\<rfloor>; d = m - of_int f in
            if d < 1 / 2 then f else if 1 / 2 < d then f + 1
            else if even f then f else f + 1)"

definition fl :: "rat \<Rightarrow> rat" where
  "fl x = (if x = 0 then 0
           else let u = 2 powi (expo \<bar>x\<bar> - 52) in sgn x * of_int (rne (\<bar>x\<bar> / u)) * u)"

text \<open>\<open>float(n)\<close> and the implicit conversion of an int operand in mixed arithmetic.\<close>

definition py_float :: "int \<Rightarrow> rat" where
  "py_float n = fl (of_int n)"

text \<open>\<open>int(x)\<close> on a float truncates toward zero.\<close>

definition py_int :: "rat \<Rightarrow> int" where
  "py_int x = (if 0 \<le> x then \<lfloor>x\<rfloor> else \<lceil>x\<rceil>)"

definition fmul :: "rat \<Rightarrow> rat \<Rightarrow> rat" where
  "fmul a b = fl (a * b)"

definition fsub :: "rat \<Rightarrow> rat \<Rightarrow> rat" where
  "fsub a b = fl (a - b)"

text \<open>Float division by a divisor that is known not to be zero (a non-zero constant).\<close>

definition fdiv :: "rat \<Rightarrow> rat \<Rightarrow> rat" where
  "fdiv a b = fl (a / b)"

text \<open>
  True division of two Python integers, \<open>a / b\<close>, is correctly rounded from the exact
  quotient.
\<close>

definition int_truediv :: "int \<Rightarrow> int \<Rightarrow> rat" where
  "int_truediv a b = fl (of_int a / of_int b)"

section \<open>Configuration (config/env.py)\<close>

text \<open>
  The environment values the core reads. Float options hold float values; the defaults are
  the floats nearest to the decimal literals of \<open>env.py\<close>.
\<close>

record config =
  MAX_TRADE_PERCENT :: rat
  SLIPPAGE_TOLERANCE :: rat
  TRAILING_STOP_PERCENT :: rat
  HARD_STOP_LOSS_PERCENT :: rat
  MAX_GAS_PRICE_GWEI :: rat
  MAX_GAS_FEE_BNB :: rat
  TX_TIMEOUT_SEC :: int
  GAS_BUMP_FACTOR :: rat
  MAX_BUMPS :: int

definition default_config :: config where
  "default_config = \<lparr>
     MAX_TRADE_PERCENT = 10,
     SLIPPAGE_TOLERANCE = fl (2 / 10),
     TRAILING_STOP_PERCENT = 1 / 2,
     HARD_STOP_LOSS_PERCENT = 2,
     MAX_GAS_PRICE_GWEI = 5,
     MAX_GAS_FEE_BNB = fl (3 / 1000),
     TX_TIMEOUT_SEC = 120,
     GAS_BUMP_FACTOR = fl (12 / 10),
     MAX_BUMPS = 3\<rparr>"

section \<open>NonceManager (core/nonce_manager.py)\<close>

text \<open>
  The manager holds one Python integer, \<open>_nonce\<close>, read once from the chain when the
  instance is built. \<open>next_nonce\<close> takes the lock, reads the counter, adds one and
  returns the value read. The body under the lock has no suspension point, so a call is
  one atomic step of the state; an interleaving of callers is the order in which they
  get the lock.
\<close>

record nonce_manager =
  nm_nonce :: int

definition nonce_init :: "int \<Rightarrow> nonce_manager" where
  "nonce_init transaction_count = \<lparr>nm_nonce = transaction_count\<rparr>"

definition next_nonce :: "nonce_manager \<Rightarrow> int \<times> nonce_manager" where
  "next_nonce m = (let current = nm_nonce m in (current, m\<lparr>nm_nonce := nm_nonce m + 1\<rparr>))"

text \<open>
  A schedule is the list of callers in the order the lock serves them; the run gives
  every caller the value its call returned.
\<close>

fun run_schedule :: "'c list \<Rightarrow> nonce_manager \<Rightarrow> ('c \<times> int) list \<times> nonce_manager" where
  "run_schedule [] m = ([], m)"
| "run_schedule (c # cs) m =
     (let (v, m') = next_nonce m; (rs, m'') = run_schedule cs m' in ((c, v) # rs, m''))"

section \<open>Risk governor: consecutive losses (core/risk.py)\<close>

text \<open>
  \<open>consecutive_losses\<close> reads the \<open>profit_usd\<close> column of all trades, most recent
  first, and runs a counting loop that stops at the first row that is not negative.
  Without a database pool it returns 0. The comparison with zero is exact on floats, so
  the column is modelled by its rational values.
\<close>

fun losses_loop :: "nat \<Rightarrow> rat list \<Rightarrow> nat" where
  "losses_loop count [] = count"
| "losses_loop count (r # rows) = (if r < 0 then losses_loop (count + 1) rows else count)"

definition consecutive_losses :: "rat list option \<Rightarrow> nat" where
  "consecutive_losses pool = (case pool of None \<Rightarrow> 0 | Some rows \<Rightarrow> losses_loop 0 rows)"

section \<open>The chain and the database\<close>

text \<open>
  The node, the tokens and the router are external. One record holds what their calls
  answer during one tick; a call that raises is \<open>None\<close>. The answers are one snapshot:
  two reads of the gas price in one tick give the same value.
\<close>

type_synonym tx_hash = string

datatype token = USDT | WBNB | WBTC

datatype contract_call =
  SwapExactTokensForTokens int int "token list" int
| Approve token int

record txn =
  tx_nonce :: int
  tx_gasPrice :: int
  tx_gas :: "int option"
  tx_call :: contract_call

record chain =
  balanceOf :: "token \<Rightarrow> int"
  allowance :: "token \<Rightarrow> int"
  getAmountsOut :: "int \<Rightarrow> token list \<Rightarrow> int list option"
  eth_gas_price :: int
  estimate_gas :: "txn \<Rightarrow> int option"
  send_raw_transaction :: "txn \<Rightarrow> tx_hash option"
  get_transaction_receipt :: "tx_hash \<Rightarrow> int option"
  get_transaction :: "tx_hash \<Rightarrow> txn option"
  time_now :: rat
  dec_btcb :: nat
  to_wei_gwei :: "rat \<Rightarrow> int"
  get_price :: "rat option"
  get_dex_price :: "rat option"

text \<open>
  \<open>get_transaction_receipt\<close> gives the \<open>status\<close> field of the receipt when there is
  one. \<open>dec_btcb\<close> is the decimals value the executor caches when it is built; the USDT
  decimals are forced to 18 there. \<open>to_wei_gwei\<close> is the library conversion
  \<open>to_wei(x, 'gwei')\<close> of a float. \<open>get_price\<close> and \<open>get_dex_price\<close> are the two
  price feeds; each returns a float or \<open>None\<close>.
\<close>

definition dec_usdt :: nat where
  "dec_usdt = 18"

datatype runtime_error = UsdtBalanceZero | BtcbBalanceZero | GasPriceTooHigh | GasFeeExceedsMax

datatype error =
  RuntimeError runtime_error
| ContractCallError
| IndexError
| ZeroDivisionError
| TransactionNotFound

record pending_row =
  row_tx_hash :: tx_hash
  row_nonce :: int
  row_gas_price :: int
  row_sent_at :: rat
  row_bumps :: int
  row_status :: string

record trade_row =
  t_trade_type :: string
  t_amount :: rat
  t_entry_price :: rat
  t_exit_price :: rat
  t_profit :: rat
  t_profit_usd :: rat
  t_expected_out :: rat
  t_tx_hash :: tx_hash

record position =
  pos_id :: nat
  pos_side :: string
  pos_entry_price :: rat
  pos_qty_total :: rat
  pos_qty_left :: rat
  pos_tp1_hit :: bool
  pos_tp2_hit :: bool

text \<open>
  The process state: the nonce manager of the account, the database (the pool flag and
  the tables), the counter that stands for fresh UUIDs, the entry prices of the
  trailing-stop tasks that were spawned, and the signed transactions handed to the node
  so far.
\<close>

record state =
  nonce_manager_of :: nonce_manager
  pool :: bool
  pending_txs :: "pending_row list"
  trades :: "trade_row list"
  positions :: "position list"
  errors :: "(string \<times> error) list"
  next_uuid :: nat
  trailing_tasks :: "rat list"
  broadcast :: "txn list"

subsection \<open>db/models.py\<close>

text \<open>\<open>Database.insert\<close> creates the pool when there is none, then inserts.\<close>

definition insert_pending :: "chain \<Rightarrow> tx_hash \<Rightarrow> int \<Rightarrow> int \<Rightarrow> state \<Rightarrow> state" where
  "insert_pending ch h n g st = st\<lparr>pool := True, pending_txs := pending_txs st @
     [\<lparr>row_tx_hash = h, row_nonce = n, row_gas_price = g, row_sent_at = time_now ch,
       row_bumps = 0, row_status = ''pending''\<rparr>]\<rparr>"

definition log_trade ::
  "string \<Rightarrow> rat \<Rightarrow> rat \<Rightarrow> rat \<Rightarrow> rat \<Rightarrow> tx_hash \<Rightarrow> rat \<Rightarrow> rat \<Rightarrow> state \<Rightarrow> state" where
  "log_trade ty amt entry exit pr h pusd expect st = st\<lparr>pool := True, trades := trades st @
     [\<lparr>t_trade_type = ty, t_amount = amt, t_entry_price = entry, t_exit_price = exit,
       t_profit = pr, t_profit_usd = pusd, t_expected_out = expect, t_tx_hash = h\<rparr>]\<rparr>"

definition log_error :: "string \<Rightarrow> error \<Rightarrow> state \<Rightarrow> state" where
  "log_error ctx e st = st\<lparr>pool := True, errors := errors st @ [(ctx, e)]\<rparr>"

definition insert_position :: "string \<Rightarrow> rat \<Rightarrow> rat \<Rightarrow> state \<Rightarrow> state" where
  "insert_position sd entry qty st = st\<lparr>pool := True, next_uuid := next_uuid st + 1,
     positions := positions st @
       [\<lparr>pos_id = next_uuid st, pos_side = sd, pos_entry_price = entry, pos_qty_total = qty,
         pos_qty_left = qty, pos_tp1_hit = False, pos_tp2_hit = False\<rparr>]\<rparr>"

definition list_positions :: "state \<Rightarrow> position list" where
  "list_positions st = (if \<not> pool st then [] else positions st)"

definition update_position_qty :: "nat \<Rightarrow> rat \<Rightarrow> bool \<Rightarrow> bool \<Rightarrow> state \<Rightarrow> state" where
  "update_position_qty pid q t1 t2 st =
     (if \<not> pool st then st
      else st\<lparr>positions := map (\<lambda>p. if pos_id p = pid
                 then p\<lparr>pos_qty_left := q, pos_tp1_hit := t1, pos_tp2_hit := t2\<rparr> else p) (positions st)\<rparr>)"

definition delete_position :: "nat \<Rightarrow> state \<Rightarrow> state" where
  "delete_position pid st =
     (if \<not> pool st then st
      else st\<lparr>positions := filter (\<lambda>p. pos_id p \<noteq> pid) (positions st)\<rparr>)"

definition pending_rows :: "state \<Rightarrow> pending_row list" where
  "pending_rows st =
     (if \<not> pool st then [] else filter (\<lambda>r. row_status r = ''pending'') (pending_txs st))"

definition mark_mined :: "tx_hash \<Rightarrow> state \<Rightarrow> state" where
  "mark_mined h st =
     (if \<not> pool st then st
      else st\<lparr>pending_txs := map (\<lambda>r. if row_tx_hash r = h
                 then r\<lparr>row_status := ''mined''\<rparr> else r) (pending_txs st)\<rparr>)"

definition update_bump :: "chain \<Rightarrow> tx_hash \<Rightarrow> tx_hash \<Rightarrow> int \<Rightarrow> int \<Rightarrow> state \<Rightarrow> state" where
  "update_bump ch h new_hash g b st =
     (if \<not> pool st then st
      else st\<lparr>pending_txs := map (\<lambda>r. if row_tx_hash r = h
                 then r\<lparr>row_tx_hash := new_hash, row_gas_price := g, row_bumps := b,
                        row_sent_at := time_now ch\<rparr> else r) (pending_txs st)\<rparr>)"

section \<open>TradeExecutor (core/trade_executor.py)\<close>

record signal =
  action :: string
  dex_price :: rat
  position_pct :: "rat option"

text \<open>
  \<open>_from_wei\<close> is the true division of two integers. The web3 conversions
  \<open>from_wei(n, 'gwei')\<close> and \<open>from_wei(n, 'ether')\<close> return exact decimals, and Python
  compares a decimal with a float exactly, so both gas guards are exact comparisons.
\<close>

definition from_wei :: "int \<Rightarrow> nat \<Rightarrow> rat" where
  "from_wei amount_wei decimals = int_truediv amount_wei (10 ^ decimals)"

definition build_tx_params :: "config \<Rightarrow> chain \<Rightarrow> state \<Rightarrow> (error + int \<times> int) \<times> state" where
  "build_tx_params cfg ch st =
     (let current_gwei = of_int (eth_gas_price ch) / 10 ^ 9 in
      if current_gwei > MAX_GAS_PRICE_GWEI cfg then (Inl (RuntimeError GasPriceTooHigh), st)
      else let (n, m) = next_nonce (nonce_manager_of st) in
        (Inr (n, if current_gwei > MAX_GAS_PRICE_GWEI cfg
                 then to_wei_gwei ch (MAX_GAS_PRICE_GWEI cfg) else eth_gas_price ch),
         st\<lparr>nonce_manager_of := m\<rparr>))"

definition send_tx :: "chain \<Rightarrow> txn \<Rightarrow> state \<Rightarrow> (error + tx_hash) \<times> state" where
  "send_tx ch signed st =
     (case send_raw_transaction ch signed of
        None \<Rightarrow> (Inl ContractCallError, st)
      | Some h \<Rightarrow> (Inr h, insert_pending ch h (tx_nonce signed) (tx_gasPrice signed)
                          (st\<lparr>broadcast := broadcast st @ [signed]\<rparr>)))"

definition ensure_allowance ::
  "config \<Rightarrow> chain \<Rightarrow> token \<Rightarrow> int \<Rightarrow> state \<Rightarrow> (error + unit) \<times> state" where
  "ensure_allowance cfg ch tok needed_amount st =
     (if allowance ch tok \<ge> needed_amount then (Inr (), st)
      else case build_tx_params cfg ch st of
          (Inl e, st1) \<Rightarrow> (Inl e, st1)
        | (Inr (n, g), st1) \<Rightarrow>
            (case send_tx ch \<lparr>tx_nonce = n, tx_gasPrice = g, tx_gas = None,
                               tx_call = Approve tok (2 ^ 256 - 1)\<rparr> st1 of
               (Inl e, st2) \<Rightarrow> (Inl e, st2)
             | (Inr h, st2) \<Rightarrow> (Inr (), st2)))"

text \<open>
  The slippage line \<open>int(expected_out * (1 - env.SLIPPAGE_TOLERANCE / 100))\<close> by itself;
  the three swap paths below contain it inline, as the source does.
\<close>

definition min_out_of :: "config \<Rightarrow> int \<Rightarrow> int" where
  "min_out_of cfg quoted_out =
     py_int (fmul (py_float quoted_out) (fsub 1 (fdiv (SLIPPAGE_TOLERANCE cfg) 100)))"

text \<open>
  The amount line \<open>int(balance * (position_pct / 100.0))\<close> by itself, with the
  default \<open>MAX_TRADE_PERCENT\<close>; the buy and the sell path contain it inline.
\<close>

definition trade_amount :: "config \<Rightarrow> signal \<Rightarrow> int \<Rightarrow> int" where
  "trade_amount cfg sig balance =
     py_int (fmul (py_float balance)
       (fdiv (case position_pct sig of None \<Rightarrow> MAX_TRADE_PERCENT cfg | Some p \<Rightarrow> p) 100))"

definition buy_btcb ::
  "config \<Rightarrow> chain \<Rightarrow> signal \<Rightarrow> state \<Rightarrow> (error + tx_hash \<times> rat \<times> rat) \<times> state" where
  "buy_btcb cfg ch sig st =
     (let balance_usdt = balanceOf ch USDT in
      if balance_usdt = 0 then (Inl (RuntimeError UsdtBalanceZero), st)
      else
        (let amount_pct = fdiv (case position_pct sig of None \<Rightarrow> MAX_TRADE_PERCENT cfg
                                  | Some p \<Rightarrow> p) 100;
             amount_in = py_int (fmul (py_float balance_usdt) amount_pct)
         in
         (case ensure_allowance cfg ch USDT amount_in st of
            (Inl e, st1) \<Rightarrow> (Inl e, st1)
          | (Inr u, st1) \<Rightarrow>
            (let path = [USDT, WBNB, WBTC] in
             (case getAmountsOut ch amount_in path of
                None \<Rightarrow> (Inl ContractCallError, st1)
              | Some quoted \<Rightarrow>
                (if quoted = [] then (Inl IndexError, st1)
                 else
                   (let quote_out = last quoted;
                        min_out = py_int (fmul (py_float quote_out)
                                     (fsub 1 (fdiv (SLIPPAGE_TOLERANCE cfg) 100)));
                        deadline = py_int (time_now ch) + 60
                    in
                    (case build_tx_params cfg ch st1 of
                       (Inl e, st2) \<Rightarrow> (Inl e, st2)
                     | (Inr (n, g), st2) \<Rightarrow>
                       (let tx = \<lparr>tx_nonce = n, tx_gasPrice = g, tx_gas = None,
                              tx_call = SwapExactTokensForTokens amount_in min_out path deadline\<rparr>
                        in
                        (case estimate_gas ch tx of
                           None \<Rightarrow> (Inl ContractCallError, st2)
                         | Some gas_estimate \<Rightarrow>
                           (let fee_bnb = of_int (tx_gasPrice tx * gas_estimate) / 10 ^ 18 in
                            if fee_bnb > MAX_GAS_FEE_BNB cfg
                            then (Inl (RuntimeError GasFeeExceedsMax), st2)
                            else
                              (case send_tx ch (tx\<lparr>tx_gas := Some gas_estimate\<rparr>) st2 of
                                 (Inl e, st3) \<Rightarrow> (Inl e, st3)
                               | (Inr h, st3) \<Rightarrow>
                                   (Inr (h, from_wei min_out (dec_btcb ch), from_wei quote_out (dec_btcb ch)), st3)))))))))))))"

definition sell_btcb ::
  "config \<Rightarrow> chain \<Rightarrow> signal \<Rightarrow> state \<Rightarrow> (error + tx_hash \<times> rat \<times> int \<times> rat) \<times> state" where
  "sell_btcb cfg ch sig st =
     (let balance_btcb = balanceOf ch WBTC in
      if balance_btcb = 0 then (Inl (RuntimeError BtcbBalanceZero), st)
      else
        (let amount_pct = fdiv (case position_pct sig of None \<Rightarrow> MAX_TRADE_PERCENT cfg
                                  | Some p \<Rightarrow> p) 100;
             amount_in = py_int (fmul (py_float balance_btcb) amount_pct)
         in
         (case ensure_allowance cfg ch WBTC amount_in st of
            (Inl e, st1) \<Rightarrow> (Inl e, st1)
          | (Inr u, st1) \<Rightarrow>
            (let path = [WBTC, WBNB, USDT] in
             (case getAmountsOut ch amount_in path of
                None \<Rightarrow> (Inl ContractCallError, st1)
              | Some quoted \<Rightarrow>
                (if quoted = [] then (Inl IndexError, st1)
                 else
                   (let quote_out = last quoted;
                        min_out = py_int (fmul (py_float quote_out)
                                     (fsub 1 (fdiv (SLIPPAGE_TOLERANCE cfg) 100)));
                        deadline = py_int (time_now ch) + 60
                    in
                    (case build_tx_params cfg ch st1 of
                       (Inl e, st2) \<Rightarrow> (Inl e, st2)
                     | (Inr (n, g), st2) \<Rightarrow>
                       (let tx = \<lparr>tx_nonce = n, tx_gasPrice = g, tx_gas = None,
                              tx_call = SwapExactTokensForTokens amount_in min_out path deadline\<rparr>
                        in
                        (case estimate_gas ch tx of
                           None \<Rightarrow> (Inl ContractCallError, st2)
                         | Some gas_estimate \<Rightarrow>
                           (let fee_bnb = of_int (tx_gasPrice tx * gas_estimate) / 10 ^ 18 in
                            if fee_bnb > MAX_GAS_FEE_BNB cfg
                            then (Inl (RuntimeError GasFeeExceedsMax), st2)
                            else
                              (case send_tx ch (tx\<lparr>tx_gas := Some gas_estimate\<rparr>) st2 of
                                 (Inl e, st3) \<Rightarrow> (Inl e, st3)
                               | (Inr h, st3) \<Rightarrow>
                                   (Inr (h, from_wei min_out dec_usdt, amount_in, from_wei quote_out dec_usdt), st3)))))))))))))"

text \<open>
  \<open>sell_exact\<close> sells a fixed BTCB amount for the take-profit watcher. It has the
  allowance step, the quote, the slippage line and \<open>_build_tx_params\<close>; between
  \<open>estimate_gas\<close> and signing there is no comparison of the fee with
  \<open>MAX_GAS_FEE_BNB\<close>. The profit line divides by \<open>amount_wbtc * current_price\<close> after
  the transaction was sent.
\<close>

definition sell_exact ::
  "config \<Rightarrow> chain \<Rightarrow> rat \<Rightarrow> rat \<Rightarrow> state \<Rightarrow> (error + tx_hash) \<times> state" where
  "sell_exact cfg ch amount_wbtc current_price st =
     (let amt_wei = py_int (fmul amount_wbtc (py_float (10 ^ dec_btcb ch))) in
      (case ensure_allowance cfg ch WBTC amt_wei st of
         (Inl e, st1) \<Rightarrow> (Inl e, st1)
       | (Inr u, st1) \<Rightarrow>
         (let path = [WBTC, USDT] in
          (case getAmountsOut ch amt_wei path of
             None \<Rightarrow> (Inl ContractCallError, st1)
           | Some quoted \<Rightarrow>
             (if quoted = [] then (Inl IndexError, st1)
              else
                (let quote_out = last quoted;
                     min_out = py_int (fmul (py_float quote_out)
                                  (fsub 1 (fdiv (SLIPPAGE_TOLERANCE cfg) 100)));
                     deadline = py_int (time_now ch) + 60
                 in
                 (case build_tx_params cfg ch st1 of
                    (Inl e, st2) \<Rightarrow> (Inl e, st2)
                  | (Inr (n, g), st2) \<Rightarrow>
                    (let tx = \<lparr>tx_nonce = n, tx_gasPrice = g, tx_gas = None,
                           tx_call = SwapExactTokensForTokens amt_wei min_out path deadline\<rparr>
                     in
                     (case estimate_gas ch tx of
                        None \<Rightarrow> (Inl ContractCallError, st2)
                      | Some gas_estimate \<Rightarrow>
                        (case send_tx ch (tx\<lparr>tx_gas := Some gas_estimate\<rparr>) st2 of
                           (Inl e, st3) \<Rightarrow> (Inl e, st3)
                         | (Inr h, st3) \<Rightarrow>
                           (let notional = fmul amount_wbtc current_price in
                            if notional = 0 then (Inl ZeroDivisionError, st3)
                            else
                              (let profit_pct = fmul (fdiv (fsub (from_wei quote_out dec_usdt)
                                                             notional) notional) 100
                               in (Inr h, log_trade ''sell'' amount_wbtc 0 current_price
                                            profit_pct h 0 (from_wei quote_out dec_usdt)
                                            st3)))))))))))))"

text \<open>
  \<open>execute\<close> is the public entry point. Its body is one \<open>try\<close> block whose handler
  logs the exception and writes an \<open>errors\<close> row; no path has a \<open>return\<close> with a value,
  so the caller gets Python's \<open>None\<close> on every path. The result type leaves room for an
  exception (\<open>Inl\<close>) and for a returned pair (\<open>Some\<close>), so that what reaches the caller
  can be compared with what a caller may expect. After a buy it inserts the position and
  spawns the trailing-stop task on the signal's price.
\<close>

definition execute ::
  "config \<Rightarrow> chain \<Rightarrow> signal \<Rightarrow> state \<Rightarrow> (error + (tx_hash \<times> rat) option) \<times> state" where
  "execute cfg ch sig st =
     (if action sig \<noteq> ''buy'' \<and> action sig \<noteq> ''sell'' then (Inr None, st)
      else if action sig = ''buy'' then
        (case buy_btcb cfg ch sig st of
           (Inl exc, st1) \<Rightarrow> (Inr None, log_error ''trade_executor'' exc st1)
         | (Inr (h, qty_out, expect), st1) \<Rightarrow>
           (let st2 = log_trade ''buy'' qty_out (dex_price sig) 0 0 h 0 expect st1;
                st3 = insert_position ''long'' (dex_price sig) qty_out st2
            in (Inr None, st3\<lparr>trailing_tasks := trailing_tasks st3 @ [dex_price sig]\<rparr>)))
      else
        (case sell_btcb cfg ch sig st of
           (Inl exc, st1) \<Rightarrow> (Inr None, log_error ''trade_executor'' exc st1)
         | (Inr (h, usdt_out, wbtc_in, expect), st1) \<Rightarrow>
           (let profit_pct = (if wbtc_in \<noteq> 0
                              then fmul (fdiv (fsub usdt_out (py_float wbtc_in))
                                          (py_float wbtc_in)) 100
                              else 0);
                profit_usd = fsub usdt_out
                               (fmul (from_wei wbtc_in (dec_btcb ch)) (dex_price sig))
            in (Inr None, log_trade ''sell'' (from_wei wbtc_in (dec_btcb ch)) 0 (dex_price sig)
                            profit_pct h profit_usd expect st1))))"

subsection \<open>The trailing-stop task\<close>

text \<open>
  One pass of the \<open>while True\<close> body of \<open>_monitor_trailing_stop\<close>: the new peak, whether
  the loop goes on, and the state. A price that is \<open>None\<close> only sleeps.
\<close>

definition trailing_tick ::
  "config \<Rightarrow> chain \<Rightarrow> rat \<Rightarrow> rat \<Rightarrow> state \<Rightarrow> (rat \<times> bool) \<times> state" where
  "trailing_tick cfg ch entry_price peak st =
     (let stop_fraction = fdiv (TRAILING_STOP_PERCENT cfg) 100 in
      case get_dex_price ch of
        None \<Rightarrow> ((peak, True), st)
      | Some current \<Rightarrow>
        (let peak1 = (if current > peak then current else peak) in
         if current \<le> fmul entry_price (fsub 1 (fdiv (HARD_STOP_LOSS_PERCENT cfg) 100))
         then ((peak1, False),
               snd (execute cfg ch \<lparr>action = ''sell'', dex_price = current,
                                     position_pct = None\<rparr> st))
         else if current \<le> fmul peak1 (fsub 1 stop_fraction)
         then ((peak1, False),
               snd (execute cfg ch \<lparr>action = ''sell'', dex_price = current,
                                     position_pct = None\<rparr> st))
         else ((peak1, True), st)))"

text \<open>
  The loop over the ticks of a run, one chain snapshot per tick. It returns the value of
  \<open>peak\<close> after every tick it ran, and stops at the tick that sold.
\<close>

fun trailing_loop ::
  "config \<Rightarrow> rat \<Rightarrow> chain list \<Rightarrow> rat \<Rightarrow> state \<Rightarrow> rat list \<times> state" where
  "trailing_loop cfg entry_price [] peak st = ([], st)"
| "trailing_loop cfg entry_price (ch # chs) peak st =
     (let ((peak1, go_on), st1) = trailing_tick cfg ch entry_price peak st in
      if go_on
      then (let (ps, st2) = trailing_loop cfg entry_price chs peak1 st1 in (peak1 # ps, st2))
      else ([peak1], st1))"

definition monitor_trailing_stop ::
  "config \<Rightarrow> rat \<Rightarrow> chain list \<Rightarrow> state \<Rightarrow> rat list \<times> state" where
  "monitor_trailing_stop cfg entry_price chs st = trailing_loop cfg entry_price chs entry_price st"

section \<open>Transaction bumper (core/tx_bumper.py)\<close>

text \<open>
  The body of the \<open>for row in rows\<close> loop. A row is marked mined when the receipt is
  there and its status is 1. Otherwise the age decides: past the timeout and under the
  bump limit, the transaction is fetched, its gas price multiplied and truncated, the copy
  signed and sent, and the row rewritten. Times are seconds. An exception of a call leaves
  the loop.
\<close>

definition bump_row :: "config \<Rightarrow> chain \<Rightarrow> pending_row \<Rightarrow> state \<Rightarrow> (error + unit) \<times> state" where
  "bump_row cfg ch row st =
     (let tx_hash = row_tx_hash row;
          receipt = get_transaction_receipt ch tx_hash
      in
      if (case receipt of None \<Rightarrow> False | Some status \<Rightarrow> status = 1)
      then (Inr (), mark_mined tx_hash st)
      else
        (let age = time_now ch - row_sent_at row in
         if age > of_int (TX_TIMEOUT_SEC cfg) \<and> row_bumps row < MAX_BUMPS cfg
         then
           (case get_transaction ch tx_hash of
              None \<Rightarrow> (Inl TransactionNotFound, st)
            | Some raw \<Rightarrow>
              (let new_gas = py_int (fmul (py_float (tx_gasPrice raw)) (GAS_BUMP_FACTOR cfg));
                   new_tx = raw\<lparr>tx_gasPrice := new_gas\<rparr>
               in
               (case send_raw_transaction ch new_tx of
                  None \<Rightarrow> (Inl ContractCallError, st)
                | Some new_hash \<Rightarrow>
                    (Inr (), update_bump ch tx_hash new_hash new_gas (row_bumps row + 1)
                               (st\<lparr>broadcast := broadcast st @ [new_tx]\<rparr>)))))
         else (Inr (), st)))"

fun bump_rows :: "config \<Rightarrow> chain \<Rightarrow> pending_row list \<Rightarrow> state \<Rightarrow> (error + unit) \<times> state" where
  "bump_rows cfg ch [] st = (Inr (), st)"
| "bump_rows cfg ch (row # rows) st =
     (case bump_row cfg ch row st of
        (Inl e, st1) \<Rightarrow> (Inl e, st1)
      | (Inr u, st1) \<Rightarrow> bump_rows cfg ch rows st1)"

text \<open>One pass of \<open>bump_loop\<close>: the rows are read once, then walked.\<close>

definition bump_tick :: "config \<Rightarrow> chain \<Rightarrow> state \<Rightarrow> (error + unit) \<times> state" where
  "bump_tick cfg ch st = bump_rows cfg ch (pending_rows st) st"

text \<open>
  \<open>bump_loop\<close> itself: one pass per chain snapshot, until an exception leaves it.
\<close>

fun bump_loop :: "config \<Rightarrow> chain list \<Rightarrow> state \<Rightarrow> (error + unit) \<times> state" where
  "bump_loop cfg [] st = (Inr (), st)"
| "bump_loop cfg (ch # chs) st =
     (case bump_tick cfg ch st of
        (Inl e, st1) \<Rightarrow> (Inl e, st1)
      | (Inr u, st1) \<Rightarrow> bump_loop cfg chs st1)"

text \<open>The gas line \<open>int(raw["gasPrice"] * env.GAS_BUMP_FACTOR)\<close> by itself.\<close>

definition bump_gas_price :: "config \<Rightarrow> int \<Rightarrow> int" where
  "bump_gas_price cfg old_gas = py_int (fmul (py_float old_gas) (GAS_BUMP_FACTOR cfg))"

section \<open>Take-profit watcher (core/tp_watcher.py)\<close>

text \<open>
  The body of the \<open>for pos in positions\<close> loop. \<open>pos\<close> is the row as it was read at
  the start of the pass. A price that is \<open>None\<close> or zero skips the position. An
  exception of \<open>sell_exact\<close> leaves the loop before the row is touched.
\<close>

definition tp_position ::
  "config \<Rightarrow> chain \<Rightarrow> position \<Rightarrow> state \<Rightarrow> (error + unit) \<times> state" where
  "tp_position cfg ch pos st =
     (case get_price ch of
        None \<Rightarrow> (Inr (), st)
      | Some price \<Rightarrow>
        (if price = 0 then (Inr (), st)
         else
           (let entry = pos_entry_price pos;
                qty_left = pos_qty_left pos;
                tp1 = fmul entry (fl (1008 / 1000));
                tp2 = fmul entry (fl (1015 / 1000));
                tp3 = fmul entry (fl (103 / 100))
            in
            if \<not> pos_tp1_hit pos \<and> price \<ge> tp1 then
              (let sell_qty = fmul qty_left (1 / 2) in
               (case sell_exact cfg ch sell_qty price st of
                  (Inl e, st1) \<Rightarrow> (Inl e, st1)
                | (Inr h, st1) \<Rightarrow>
                    (Inr (), update_position_qty (pos_id pos) (fsub qty_left sell_qty)
                               True (pos_tp2_hit pos) st1)))
            else if pos_tp1_hit pos \<and> \<not> pos_tp2_hit pos \<and> price \<ge> tp2 then
              (let sell_qty = fmul qty_left (1 / 2) in
               (case sell_exact cfg ch sell_qty price st of
                  (Inl e, st1) \<Rightarrow> (Inl e, st1)
                | (Inr h, st1) \<Rightarrow>
                    (Inr (), update_position_qty (pos_id pos) (fsub qty_left sell_qty)
                               True True st1)))
            else if pos_tp2_hit pos \<and> price \<ge> tp3 then
              (case sell_exact cfg ch qty_left price st of
                 (Inl e, st1) \<Rightarrow> (Inl e, st1)
               | (Inr h, st1) \<Rightarrow> (Inr (), delete_position (pos_id pos) st1))
            else (Inr (), st))))"

fun tp_positions :: "config \<Rightarrow> chain \<Rightarrow> position list \<Rightarrow> state \<Rightarrow> (error + unit) \<times> state" where
  "tp_positions cfg ch [] st = (Inr (), st)"
| "tp_positions cfg ch (pos # ps) st =
     (case tp_position cfg ch pos st of
        (Inl e, st1) \<Rightarrow> (Inl e, st1)
      | (Inr u, st1) \<Rightarrow> tp_positions cfg ch ps st1)"

definition tp_tick :: "config \<Rightarrow> chain \<Rightarrow> state \<Rightarrow> (error + unit) \<times> state" where
  "tp_tick cfg ch st = tp_positions cfg ch (list_positions st) st"

section \<open>Sample inputs\<close>

text \<open>
  The state of a fresh process whose account has \<open>transaction_count\<close> confirmed
  transactions, and a chain snapshot: a balance of 1000 tokens of 18 decimals, unlimited
  allowance, a router that quotes 10^18 + 1000 for any amount, a gas price of 3 gwei, a
  gas estimate of 200000, and no price feed.
\<close>

definition init_state :: "int \<Rightarrow> state" where
  "init_state transaction_count = \<lparr>nonce_manager_of = nonce_init transaction_count, pool = False,
     pending_txs = [], trades = [], positions = [], errors = [], next_uuid = 0,
     trailing_tasks = [], broadcast = []\<rparr>"

definition sample_chain :: chain where
  "sample_chain = \<lparr>
     balanceOf = (\<lambda>t. 10 ^ 21),
     allowance = (\<lambda>t. 2 ^ 256 - 1),
     getAmountsOut = (\<lambda>a p. Some [a, 10 ^ 18 + 1000]),
     eth_gas_price = 3000000000,
     estimate_gas = (\<lambda>t. Some 200000),
     send_raw_transaction = (\<lambda>t. Some ''0xabc''),
     get_transaction_receipt = (\<lambda>h. None),
     get_transaction = (\<lambda>h. None),
     time_now = 1700000000,
     dec_btcb = 18,
     to_wei_gwei = (\<lambda>x. \<lfloor>x * 10 ^ 9\<rfloor>),
     get_price = None,
     get_dex_price = None\<rparr>"

definition buy_signal :: signal where
  "buy_signal = \<lparr>action = ''buy'', dex_price = 60000, position_pct = None\<rparr>"

definition sell_signal :: signal where
  "sell_signal = \<lparr>action = ''sell'', dex_price = 60000, position_pct = None\<rparr>"

text \<open>
  Variants of the snapshot: a gas price at the ceiling with a gas estimate of 1,000,000
  (a fee of 0.005 BNB), zero balances, a gas price of 6 gwei, and a router whose quote
  call fails.
\<close>

definition costly_chain :: chain where
  "costly_chain = sample_chain\<lparr>eth_gas_price := 5000000000, estimate_gas := (\<lambda>t. Some 1000000)\<rparr>"

definition broke_chain :: chain where
  "broke_chain = sample_chain\<lparr>balanceOf := (\<lambda>t. 0)\<rparr>"

definition congested_chain :: chain where
  "congested_chain = sample_chain\<lparr>eth_gas_price := 6000000000\<rparr>"

definition quoteless_chain :: chain where
  "quoteless_chain = sample_chain\<lparr>getAmountsOut := (\<lambda>a p. None)\<rparr>"

text \<open>
  A state with one pending row (nonce 7, gas price 5, sent at 1700000000), the transaction
  the node holds for it, and snapshots 121 seconds later: one without a receipt, one
  with a receipt of status 0, one where the transaction has gas price 7.
\<close>

definition stuck_row :: pending_row where
  "stuck_row = \<lparr>row_tx_hash = ''0xabc'', row_nonce = 7, row_gas_price = 5,
     row_sent_at = 1700000000, row_bumps = 0, row_status = ''pending''\<rparr>"

definition stuck_tx :: txn where
  "stuck_tx = \<lparr>tx_nonce = 7, tx_gasPrice = 5, tx_gas = Some 200000,
     tx_call = SwapExactTokensForTokens 100 99 [USDT, WBNB, WBTC] 1700000060\<rparr>"

definition stuck_state :: state where
  "stuck_state = (init_state 8)\<lparr>pool := True, pending_txs := [stuck_row]\<rparr>"

definition stalled_chain :: chain where
  "stalled_chain = sample_chain\<lparr>
     get_transaction := (\<lambda>h. Some stuck_tx),
     send_raw_transaction := (\<lambda>t. Some ''0xdef''),
     time_now := 1700000121\<rparr>"

definition reverted_chain :: chain where
  "reverted_chain = stalled_chain\<lparr>get_transaction_receipt := (\<lambda>h. Some 0)\<rparr>"

definition odd_gas_chain :: chain where
  "odd_gas_chain = stalled_chain\<lparr>get_transaction := (\<lambda>h. Some (stuck_tx\<lparr>tx_gasPrice := 7\<rparr>))\<rparr>"

section \<open>Properties of float rounding\<close>

text \<open>
  The exponent brackets its argument between two powers of two; rounding is monotone, fixes
  every float, and moves a value by at most one part in 2^53.
\<close>

lemma expo_ge1:
  assumes "1 \<le> x"
  shows "2 powi expo x \<le> x \<and> x < 2 powi (expo x + 1)"
proof -
  let ?n = "\<lfloor>x\<rfloor>"
  have n: "0 < ?n" using assms by simp
  have b1: "1 \<le> bitlen ?n" using n by (simp add: bitlen_alt_def)
  from bitlen_bounds [OF n]
  have lo: "2 ^ nat (bitlen ?n - 1) \<le> ?n" and hi: "?n < 2 ^ nat (bitlen ?n)" by auto
  have "(2::rat) ^ nat (bitlen ?n - 1) = of_int (2 ^ nat (bitlen ?n - 1))" by simp
  also have "\<dots> \<le> of_int ?n" using lo by (simp only: of_int_le_iff)
  also have "\<dots> \<le> x" by simp
  finally have A: "(2::rat) ^ nat (bitlen ?n - 1) \<le> x" .
  have "?n + 1 \<le> 2 ^ nat (bitlen ?n)" using hi by simp
  then have "(of_int (?n + 1) :: rat) \<le> of_int (2 ^ nat (bitlen ?n))"
    by (simp only: of_int_le_iff)
  moreover have "x < of_int (?n + 1)" by linarith
  ultimately have B: "x < (2::rat) ^ nat (bitlen ?n)" by simp
  show ?thesis using A B b1 assms
    by (simp add: expo_def power_int_def)
qed

lemma expo_lt1:
  assumes "0 < x" "x < 1"
  shows "2 powi expo x \<le> x \<and> x < 2 powi (expo x + 1)"
proof -
  define y where "y = 1 / x"
  define k where "k = \<lceil>y\<rceil> - 1"
  define b where "b = bitlen k"
  have y1: "1 < y" using assms by (simp add: y_def)
  have ky: "of_int k < y" "y \<le> of_int k + 1" unfolding k_def by linarith+
  have k: "0 < k" using y1 ky by linarith
  have b1: "1 \<le> b" using k by (simp add: bitlen_alt_def b_def)
  from bitlen_bounds [OF k]
  have lo: "2 ^ nat (b - 1) \<le> k" and hi: "k < 2 ^ nat b" by (auto simp: b_def)
  have "(2::rat) ^ nat (b - 1) = of_int (2 ^ nat (b - 1))" by simp
  also have "\<dots> \<le> of_int k" using lo by (simp only: of_int_le_iff)
  also have "\<dots> < y" using ky by simp
  finally have A: "(2::rat) ^ nat (b - 1) < y" .
  have "k + 1 \<le> 2 ^ nat b" using hi by simp
  then have "(of_int (k + 1) :: rat) \<le> of_int (2 ^ nat b)"
    by (simp only: of_int_le_iff)
  also have "\<dots> = (2::rat) ^ nat b" by simp
  finally have "of_int k + 1 \<le> (2::rat) ^ nat b" by simp
  then have B: "y \<le> (2::rat) ^ nat b" using ky by linarith
  have e: "expo x = - b" using assms by (simp add: expo_def b_def k_def y_def)
  have p1: "2 powi (- b) = 1 / (2::rat) ^ nat b"
    using b1 by (simp add: power_int_def field_simps)
  have p2: "2 powi (- b + 1) = 1 / (2::rat) ^ nat (b - 1)"
    using b1 by (simp add: power_int_def field_simps nat_diff_distrib)
  have C: "1 / (2::rat) ^ nat b \<le> x"
    using B assms by (simp add: field_simps y_def)
  have D: "x < 1 / (2::rat) ^ nat (b - 1)"
    using A assms by (simp add: field_simps y_def)
  show ?thesis unfolding e p1 p2 using C D by simp
qed

lemma expo_bounds:
  "0 < x \<Longrightarrow> 2 powi expo x \<le> x \<and> x < 2 powi (expo x + 1)"
  using expo_ge1 [of x] expo_lt1 [of x] by (cases "1 \<le> x") auto

lemma p2_pos: "0 < (2::rat) powi e"
  by (simp add: power_int_def)

lemma p2_add: "(2::rat) powi (a + b) = 2 powi a * 2 powi b"
  by (simp add: power_int_add)

lemma p2_Suc: "(2::rat) powi (e + 1) = 2 * 2 powi e"
  by (simp add: power_int_add)

lemma p2_mono: "a \<le> b \<Longrightarrow> (2::rat) powi a \<le> 2 powi b"
  by (rule power_int_increasing) simp_all

lemma p2_strict: "a < b \<Longrightarrow> (2::rat) powi a < 2 powi b"
  by (rule power_int_strict_increasing) simp_all

lemma expo_unique:
  assumes "0 < x" "2 powi e \<le> x" "x < 2 powi (e + 1)"
  shows "expo x = e"
proof (rule ccontr)
  assume ne: "expo x \<noteq> e"
  from expo_bounds [OF assms(1)]
  have lo: "2 powi expo x \<le> x" and hi: "x < 2 powi (expo x + 1)" by auto
  show False
  proof (cases "expo x < e")
    case True
    then have "(2::rat) powi (expo x + 1) \<le> 2 powi e" by (intro p2_mono) simp
    with hi assms(2) show False by linarith
  next
    case False
    with ne have "e + 1 \<le> expo x" by simp
    then have "(2::rat) powi (e + 1) \<le> 2 powi expo x" by (rule p2_mono)
    with lo assms(3) show False by linarith
  qed
qed

lemma expo_mono:
  assumes "0 < x" "x \<le> y"
  shows "expo x \<le> expo y"
proof (rule ccontr)
  assume "\<not> expo x \<le> expo y"
  then have "expo y + 1 \<le> expo x" by simp
  then have "(2::rat) powi (expo y + 1) \<le> 2 powi expo x" by (rule p2_mono)
  moreover have "y < 2 powi (expo y + 1)" using expo_bounds [of y] assms by simp
  moreover have "2 powi expo x \<le> x" using expo_bounds [of x] assms by simp
  ultimately show False using assms by linarith
qed

lemma rne_cases:
  "rne m = \<lfloor>m\<rfloor> \<or> rne m = \<lfloor>m\<rfloor> + 1"
  by (simp add: rne_def Let_def)

lemma rne_err: "\<bar>of_int (rne m) - m\<bar> \<le> 1 / 2"
proof -
  define f where "f = \<lfloor>m\<rfloor>"
  have b: "of_int f \<le> m" "m < of_int f + 1" unfolding f_def by linarith+
  have "rne m = (if m - of_int f < 1 / 2 then f else if 1 / 2 < m - of_int f then f + 1
            else if even f then f else f + 1)"
    by (simp add: rne_def Let_def f_def)
  then show ?thesis using b
    by (auto simp add: abs_if split: if_splits)
qed

lemma rne_of_int [simp]: "rne (of_int k) = k"
  by (simp add: rne_def)

lemma rne_ge_floor: "\<lfloor>m\<rfloor> \<le> rne m"
  using rne_cases [of m] by auto

lemma rne_le_floor1: "rne m \<le> \<lfloor>m\<rfloor> + 1"
  using rne_cases [of m] by auto

lemma rne_mono:
  assumes "a \<le> b"
  shows "rne a \<le> rne b"
proof (cases "\<lfloor>a\<rfloor> = \<lfloor>b\<rfloor>")
  case True
  then have "a - of_int \<lfloor>a\<rfloor> \<le> b - of_int \<lfloor>b\<rfloor>" using assms by simp
  then show ?thesis using True
    by (auto simp add: rne_def Let_def)
next
  case False
  have "\<lfloor>a\<rfloor> \<le> \<lfloor>b\<rfloor>" using assms by (rule floor_mono)
  with False have "\<lfloor>a\<rfloor> + 1 \<le> \<lfloor>b\<rfloor>" by simp
  then show ?thesis using rne_le_floor1 [of a] rne_ge_floor [of b] by linarith
qed

lemma rne_ge_int: "of_int k \<le> m \<Longrightarrow> k \<le> rne m"
  using rne_mono [of "of_int k" m] by simp

lemma rne_le_int: "m \<le> of_int k \<Longrightarrow> rne m \<le> k"
  using rne_mono [of m "of_int k"] by simp

lemma fl_zero [simp]: "fl 0 = 0"
  by (simp add: fl_def)

lemma fl_pos:
  "0 < x \<Longrightarrow> fl x = of_int (rne (x / 2 powi (expo x - 52))) * 2 powi (expo x - 52)"
  by (simp add: fl_def Let_def)

lemma fl_minus: "fl (- x) = - fl x"
  by (simp add: fl_def Let_def)

lemma p2_split: "(2::rat) powi e = 2 ^ 52 * 2 powi (e - 52)"
proof -
  have "(2::rat) powi e = 2 powi (52 + (e - 52))" by simp
  also have "\<dots> = 2 powi 52 * 2 powi (e - 52)" by (rule p2_add)
  finally show ?thesis by simp
qed

lemma mant_bounds:
  assumes "0 < x"
  shows "2 ^ 52 \<le> x / 2 powi (expo x - 52)" and "x / 2 powi (expo x - 52) < 2 ^ 53"
proof -
  let ?u = "(2::rat) powi (expo x - 52)"
  have u: "0 < ?u" by (rule p2_pos)
  from expo_bounds [OF assms]
  have lo: "2 powi expo x \<le> x" and hi: "x < 2 powi (expo x + 1)" by auto
  have "2 ^ 52 * ?u \<le> x" using lo p2_split [of "expo x"] by simp
  then show "2 ^ 52 \<le> x / ?u" using u by (simp add: pos_le_divide_eq)
  have "(2::rat) powi (expo x + 1) = 2 ^ 53 * ?u"
    using p2_split [of "expo x"] by (simp add: p2_Suc)
  then have "x < 2 ^ 53 * ?u" using hi by simp
  then show "x / ?u < 2 ^ 53" using u by (simp add: pos_divide_less_eq)
qed

lemma rne_mant:
  assumes "0 < x"
  shows "2 ^ 52 \<le> rne (x / 2 powi (expo x - 52))" and "rne (x / 2 powi (expo x - 52)) \<le> 2 ^ 53"
proof -
  have a: "of_int (2 ^ 52) \<le> x / 2 powi (expo x - 52)"
    using mant_bounds(1) [OF assms] by simp
  show "2 ^ 52 \<le> rne (x / 2 powi (expo x - 52))" by (rule rne_ge_int [OF a])
  have b: "x / 2 powi (expo x - 52) \<le> of_int (2 ^ 53)"
    using mant_bounds(2) [OF assms] by simp
  show "rne (x / 2 powi (expo x - 52)) \<le> 2 ^ 53" by (rule rne_le_int [OF b])
qed

lemma fl_pos_bounds:
  assumes "0 < x"
  shows "2 powi expo x \<le> fl x" and "fl x \<le> 2 powi (expo x + 1)"
proof -
  let ?u = "(2::rat) powi (expo x - 52)"
  let ?r = "rne (x / ?u)"
  have u: "0 < ?u" by (rule p2_pos)
  have "(of_int (2 ^ 52) :: rat) \<le> of_int ?r"
    using rne_mant(1) [OF assms] by (simp only: of_int_le_iff)
  then have "2 ^ 52 * ?u \<le> of_int ?r * ?u" using u by simp
  then show "2 powi expo x \<le> fl x"
    using p2_split [of "expo x"] fl_pos [OF assms] by simp
  have "(of_int ?r :: rat) \<le> of_int (2 ^ 53)"
    using rne_mant(2) [OF assms] by (simp only: of_int_le_iff)
  then have "of_int ?r * ?u \<le> 2 ^ 53 * ?u" using u by simp
  moreover have "(2::rat) powi (expo x + 1) = 2 ^ 53 * ?u"
    using p2_split [of "expo x"] by (simp add: p2_Suc)
  ultimately show "fl x \<le> 2 powi (expo x + 1)"
    using fl_pos [OF assms] by simp
qed

lemma fl_pos_pos: "0 < x \<Longrightarrow> 0 < fl x"
  using fl_pos_bounds(1) [of x] p2_pos [of "expo x"] by linarith

lemma fl_mono_pos:
  assumes "0 < x" "x \<le> y"
  shows "fl x \<le> fl y"
proof (cases "expo x = expo y")
  case True
  let ?u = "(2::rat) powi (expo y - 52)"
  have u: "0 < ?u" by (rule p2_pos)
  have "x / ?u \<le> y / ?u" using assms u by (simp add: divide_right_mono)
  then have "rne (x / ?u) \<le> rne (y / ?u)" by (rule rne_mono)
  then have "(of_int (rne (x / ?u)) :: rat) \<le> of_int (rne (y / ?u))"
    by (simp only: of_int_le_iff)
  then have "of_int (rne (x / ?u)) * ?u \<le> of_int (rne (y / ?u)) * ?u" using u by simp
  then show ?thesis using fl_pos [of x] fl_pos [of y] assms True by simp
next
  case False
  have y: "0 < y" using assms by linarith
  have "expo x \<le> expo y" using assms by (rule expo_mono)
  with False have "expo x + 1 \<le> expo y" by simp
  then have "(2::rat) powi (expo x + 1) \<le> 2 powi expo y" by (rule p2_mono)
  then show ?thesis
    using fl_pos_bounds(2) [OF assms(1)] fl_pos_bounds(1) [OF y] by linarith
qed

lemma fl_nonneg: "0 \<le> x \<Longrightarrow> 0 \<le> fl x"
  using fl_pos_pos [of x] by (cases "x = 0") auto

lemma fl_mono:
  assumes "x \<le> y"
  shows "fl x \<le> fl y"
proof -
  consider "0 < x" | "x = 0" | "x < 0" "0 \<le> y" | "x < 0" "y < 0" by linarith
  then show ?thesis
  proof cases
    case 1
    then show ?thesis using assms by (rule fl_mono_pos)
  next
    case 2
    then show ?thesis using assms fl_nonneg [of y] by simp
  next
    case 3
    have "fl x = - fl (- x)" using fl_minus [of "- x"] by simp
    moreover have "0 \<le> fl (- x)" using 3 by (intro fl_nonneg) simp
    ultimately show ?thesis using fl_nonneg [OF 3(2)] by linarith
  next
    case 4
    have "fl (- y) \<le> fl (- x)" using 4 assms by (intro fl_mono_pos) simp_all
    then show ?thesis by (simp add: fl_minus)
  qed
qed

lemma fl_err_pos:
  assumes "0 < x"
  shows "\<bar>fl x - x\<bar> \<le> x / 2 ^ 53"
proof -
  let ?u = "(2::rat) powi (expo x - 52)"
  let ?m = "x / ?u"
  have u: "0 < ?u" by (rule p2_pos)
  have x: "x = ?m * ?u" using u by simp
  have "fl x - x = (of_int (rne ?m) - ?m) * ?u"
    using fl_pos [OF assms] u by (simp add: algebra_simps)
  then have "\<bar>fl x - x\<bar> = \<bar>of_int (rne ?m) - ?m\<bar> * ?u"
    using u by (simp add: abs_mult)
  also have "\<dots> \<le> (1 / 2) * ?u"
    using rne_err [of ?m] u by (intro mult_right_mono) simp_all
  also have "\<dots> \<le> x / 2 ^ 53"
  proof -
    have "2 ^ 52 * ?u \<le> x"
      using mant_bounds(1) [OF assms] u by (simp add: pos_le_divide_eq)
    then show ?thesis by simp
  qed
  finally show ?thesis .
qed

lemma fl_err: "\<bar>fl x - x\<bar> \<le> \<bar>x\<bar> / 2 ^ 53"
proof -
  consider "0 < x" | "x = 0" | "x < 0" by linarith
  then show ?thesis
  proof cases
    case 1 then show ?thesis using fl_err_pos [of x] by simp
  next
    case 2 then show ?thesis by simp
  next
    case 3
    then have "\<bar>fl (- x) - (- x)\<bar> \<le> (- x) / 2 ^ 53" by (intro fl_err_pos) simp
    moreover have "\<bar>fl (- x) - (- x)\<bar> = \<bar>fl x - x\<bar>" by (simp add: fl_minus)
    ultimately show ?thesis using 3 by simp
  qed
qed

lemma fl_repr_lt:
  assumes "0 < k" "k < 2 ^ 53"
  shows "fl (of_int k * 2 powi j) = of_int k * 2 powi j"
proof -
  define b where "b = expo (of_int k)"
  define x :: rat where "x = of_int k * 2 powi j"
  have k0: "(0::rat) < of_int k" using assms by simp
  from expo_bounds [OF k0]
  have lo: "2 powi b \<le> (of_int k :: rat)" and hi: "(of_int k :: rat) < 2 powi (b + 1)"
    by (auto simp: b_def)
  have "(of_int k :: rat) < of_int (2 ^ 53)" using assms(2) by (simp only: of_int_less_iff)
  then have k53: "(of_int k :: rat) < 2 powi 53" by simp
  have b52: "b \<le> 52"
  proof (rule ccontr)
    assume "\<not> b \<le> 52"
    then have "(2::rat) powi 53 \<le> 2 powi b" by (intro p2_mono) simp
    with lo k53 show False by linarith
  qed
  have x0: "0 < x" using k0 p2_pos [of j] by (simp add: x_def)
  have xl: "2 powi (b + j) \<le> x"
    using lo p2_pos [of j] by (simp add: x_def p2_add)
  have xh: "x < 2 powi (b + j + 1)"
  proof -
    have "of_int k * 2 powi j < 2 powi (b + 1) * (2::rat) powi j"
      using hi p2_pos [of j] by (simp only: mult_less_cancel_right_pos)
    also have "\<dots> = 2 powi (b + j + 1)" by (simp add: p2_add [symmetric] add.commute add.left_commute)
    finally show ?thesis by (simp add: x_def)
  qed
  have e: "expo x = b + j" using x0 xl xh by (rule expo_unique)
  have split: "(2::rat) powi j = 2 powi (52 - b) * 2 powi (b + j - 52)"
    by (simp add: p2_add [symmetric])
  have nn: "(2::rat) powi (52 - b) = of_int (2 ^ nat (52 - b))"
    using b52 by (simp add: power_int_def)
  have m: "x / 2 powi (b + j - 52) = of_int (k * 2 ^ nat (52 - b))"
    using p2_pos [of "b + j - 52"] by (simp add: x_def split nn)
  have "fl x = of_int (rne (x / 2 powi (b + j - 52))) * 2 powi (b + j - 52)"
    using fl_pos [OF x0] e by simp
  also have "\<dots> = of_int (k * 2 ^ nat (52 - b)) * 2 powi (b + j - 52)"
    by (simp only: m rne_of_int)
  also have "\<dots> = x"
    using nn by (simp add: x_def split)
  finally show ?thesis by (simp add: x_def)
qed

lemma fl_p2: "fl (2 powi j) = 2 powi j"
  using fl_repr_lt [of 1 j] by simp

lemma fl_repr:
  assumes "0 < k" "k \<le> 2 ^ 53"
  shows "fl (of_int k * 2 powi j) = of_int k * 2 powi j"
proof (cases "k = 2 ^ 53")
  case True
  have "of_int k * (2::rat) powi j = 2 powi (53 + j)"
    unfolding True by (simp add: p2_add)
  then show ?thesis using fl_p2 [of "53 + j"] by simp
next
  case False
  with assms have "k < 2 ^ 53" by simp
  with assms(1) show ?thesis by (rule fl_repr_lt)
qed

lemma fl_idem: "fl (fl x) = fl x"
proof -
  have pos: "fl (fl y) = fl y" if "0 < y" for y
  proof -
    let ?r = "rne (y / 2 powi (expo y - 52))"
    have "(0::int) < 2 ^ 52" by simp
    then have "0 < ?r" using rne_mant(1) [OF that] by (rule less_le_trans)
    then have "fl (of_int ?r * 2 powi (expo y - 52)) = of_int ?r * 2 powi (expo y - 52)"
      using rne_mant(2) [OF that] by (rule fl_repr)
    then show ?thesis using fl_pos [OF that] by simp
  qed
  consider "0 < x" | "x = 0" | "x < 0" by linarith
  then show ?thesis
  proof cases
    case 1 then show ?thesis by (rule pos)
  next
    case 2 then show ?thesis by simp
  next
    case 3
    then have "fl (fl (- x)) = fl (- x)" by (intro pos) simp
    then show ?thesis by (simp add: fl_minus)
  qed
qed

lemma fl_of_int:
  assumes "\<bar>n\<bar> \<le> 2 ^ 53"
  shows "fl (of_int n) = of_int n"
proof -
  consider "0 < n" | "n = 0" | "n < 0" by linarith
  then show ?thesis
  proof cases
    case 1
    then show ?thesis using fl_repr [of n 0] assms by simp
  next
    case 2 then show ?thesis by simp
  next
    case 3
    then have "fl (of_int (- n) * 2 powi 0) = of_int (- n) * 2 powi 0"
      using assms by (intro fl_repr) simp_all
    then show ?thesis by (simp add: fl_minus)
  qed
qed

lemma fl_half: "fl (x / 2) = fl x / 2"
proof -
  have pos: "fl (y / 2) = fl y / 2" if "0 < y" for y
  proof -
    have y2: "0 < y / 2" using that by simp
    from expo_bounds [OF that]
    have lo: "2 powi expo y \<le> y" and hi: "y < 2 powi (expo y + 1)" by auto
    have a: "2 powi (expo y - 1) \<le> y / 2"
      using lo p2_Suc [of "expo y - 1"] by simp
    have b: "y / 2 < 2 powi (expo y - 1 + 1)"
      using hi p2_Suc [of "expo y"] by simp
    have e: "expo (y / 2) = expo y - 1" using y2 a b by (rule expo_unique)
    have u: "(2::rat) powi (expo y - 52) = 2 * 2 powi (expo y - 1 - 52)"
      using p2_Suc [of "expo y - 1 - 52"] by (simp add: algebra_simps)
    have "y / 2 / 2 powi (expo y - 1 - 52) = y / 2 powi (expo y - 52)"
      unfolding u by simp
    then show ?thesis
      using fl_pos [OF that] fl_pos [OF y2] e u by simp
  qed
  consider "0 < x" | "x = 0" | "x < 0" by linarith
  then show ?thesis
  proof cases
    case 1 then show ?thesis by (rule pos)
  next
    case 2 then show ?thesis by simp
  next
    case 3
    then have "fl ((- x) / 2) = fl (- x) / 2" by (intro pos) simp
    then show ?thesis using fl_minus [of "x / 2"] by (simp add: fl_minus)
  qed
qed

section \<open>Properties of the executor steps\<close>

lemma send_tx_Inr:
  "send_tx ch tx st = (Inr h, st') \<Longrightarrow>
     send_raw_transaction ch tx = Some h \<and>
     st' = insert_pending ch h (tx_nonce tx) (tx_gasPrice tx) (st\<lparr>broadcast := broadcast st @ [tx]\<rparr>)"
  by (auto simp: send_tx_def split: option.splits)

lemma send_tx_Inl:
  "send_tx ch tx st = (Inl e, st') \<Longrightarrow> st' = st \<and> e = ContractCallError"
  by (auto simp: send_tx_def split: option.splits)

lemma broadcast_insert_pending [simp]:
  "broadcast (insert_pending ch h n g st) = broadcast st"
  by (simp add: insert_pending_def)

lemma build_tx_params_reject:
  "MAX_GAS_PRICE_GWEI cfg < of_int (eth_gas_price ch) / 10 ^ 9 \<Longrightarrow>
     build_tx_params cfg ch st = (Inl (RuntimeError GasPriceTooHigh), st)"
  by (simp add: build_tx_params_def)

lemma build_tx_params_pass:
  "\<not> MAX_GAS_PRICE_GWEI cfg < of_int (eth_gas_price ch) / 10 ^ 9 \<Longrightarrow>
     build_tx_params cfg ch st =
       (Inr (nm_nonce (nonce_manager_of st), eth_gas_price ch),
        st\<lparr>nonce_manager_of := (nonce_manager_of st)\<lparr>nm_nonce := nm_nonce (nonce_manager_of st) + 1\<rparr>\<rparr>)"
  by (simp add: build_tx_params_def next_nonce_def Let_def)

lemma ensure_allowance_enough:
  "needed \<le> allowance ch tok \<Longrightarrow> ensure_allowance cfg ch tok needed st = (Inr (), st)"
  by (simp add: ensure_allowance_def)

lemma ensure_allowance_reject:
  "MAX_GAS_PRICE_GWEI cfg < of_int (eth_gas_price ch) / 10 ^ 9 \<Longrightarrow>
     ensure_allowance cfg ch tok needed st = (Inr (), st) \<or>
     ensure_allowance cfg ch tok needed st = (Inl (RuntimeError GasPriceTooHigh), st)"
  by (simp add: ensure_allowance_def build_tx_params_reject)

lemma execute_returns_none: "fst (execute cfg ch sig st) = Inr None"
  by (simp add: execute_def Let_def split: prod.splits sum.splits)

lemma execute_buy_error:
  "action sig = ''buy'' \<Longrightarrow> buy_btcb cfg ch sig st = (Inl e, st1) \<Longrightarrow>
     snd (execute cfg ch sig st) = log_error ''trade_executor'' e st1"
  by (simp add: execute_def)

lemma execute_sell_error:
  "action sig = ''sell'' \<Longrightarrow> sell_btcb cfg ch sig st = (Inl e, st1) \<Longrightarrow>
     snd (execute cfg ch sig st) = log_error ''trade_executor'' e st1"
  by (simp add: execute_def)

lemma execute_buy_success:
  "action sig = ''buy'' \<Longrightarrow> buy_btcb cfg ch sig st = (Inr (h, q, x), st1) \<Longrightarrow>
     trades (snd (execute cfg ch sig st)) = trades st1 @
       [\<lparr>t_trade_type = ''buy'', t_amount = q, t_entry_price = dex_price sig, t_exit_price = 0,
         t_profit = 0, t_profit_usd = 0, t_expected_out = x, t_tx_hash = h\<rparr>]
     \<and> errors (snd (execute cfg ch sig st)) = errors st1"
  by (simp add: execute_def Let_def log_trade_def insert_position_def)

lemma execute_sell_success:
  "action sig = ''sell'' \<Longrightarrow> sell_btcb cfg ch sig st = (Inr (h, q, a, x), st1) \<Longrightarrow>
     (\<exists>row. trades (snd (execute cfg ch sig st)) = trades st1 @ [row] \<and>
        t_trade_type row = ''sell'' \<and> t_amount row = from_wei a (dec_btcb ch) \<and>
        t_exit_price row = dex_price sig \<and> t_expected_out row = x \<and> t_tx_hash row = h)
     \<and> errors (snd (execute cfg ch sig st)) = errors st1"
  by (simp add: execute_def Let_def log_trade_def)

lemma buy_zero_balance:
  "balanceOf ch USDT = 0 \<Longrightarrow> buy_btcb cfg ch sig st = (Inl (RuntimeError UsdtBalanceZero), st)"
  by (simp add: buy_btcb_def)

lemma sell_zero_balance:
  "balanceOf ch WBTC = 0 \<Longrightarrow> sell_btcb cfg ch sig st = (Inl (RuntimeError BtcbBalanceZero), st)"
  by (simp add: sell_btcb_def)

lemma buy_gas_price_state:
  assumes "MAX_GAS_PRICE_GWEI cfg < of_int (eth_gas_price ch) / 10 ^ 9"
  shows "snd (buy_btcb cfg ch sig st) = st \<and> (\<exists>e. fst (buy_btcb cfg ch sig st) = Inl e)"
  using ensure_allowance_reject [OF assms, of USDT "trade_amount cfg sig (balanceOf ch USDT)" st]
  by (auto simp: buy_btcb_def Let_def trade_amount_def build_tx_params_reject [OF assms]
      split: option.splits)

lemma sell_gas_price_state:
  assumes "MAX_GAS_PRICE_GWEI cfg < of_int (eth_gas_price ch) / 10 ^ 9"
  shows "snd (sell_btcb cfg ch sig st) = st \<and> (\<exists>e. fst (sell_btcb cfg ch sig st) = Inl e)"
  using ensure_allowance_reject [OF assms, of WBTC "trade_amount cfg sig (balanceOf ch WBTC)" st]
  by (auto simp: sell_btcb_def Let_def trade_amount_def build_tx_params_reject [OF assms]
      split: option.splits)

lemma buy_gas_price_exceeded:
  assumes "balanceOf ch USDT \<noteq> 0"
    and "MAX_GAS_PRICE_GWEI cfg < of_int (eth_gas_price ch) / 10 ^ 9"
    and "getAmountsOut ch (trade_amount cfg sig (balanceOf ch USDT)) [USDT, WBNB, WBTC] = Some quoted"
    and "quoted \<noteq> []"
  shows "buy_btcb cfg ch sig st = (Inl (RuntimeError GasPriceTooHigh), st)"
  using assms ensure_allowance_reject [OF assms(2), of USDT "trade_amount cfg sig (balanceOf ch USDT)" st]
  by (auto simp: buy_btcb_def Let_def trade_amount_def build_tx_params_reject [OF assms(2)])

lemma sell_gas_price_exceeded:
  assumes "balanceOf ch WBTC \<noteq> 0"
    and "MAX_GAS_PRICE_GWEI cfg < of_int (eth_gas_price ch) / 10 ^ 9"
    and "getAmountsOut ch (trade_amount cfg sig (balanceOf ch WBTC)) [WBTC, WBNB, USDT] = Some quoted"
    and "quoted \<noteq> []"
  shows "sell_btcb cfg ch sig st = (Inl (RuntimeError GasPriceTooHigh), st)"
  using assms ensure_allowance_reject [OF assms(2), of WBTC "trade_amount cfg sig (balanceOf ch WBTC)" st]
  by (auto simp: sell_btcb_def Let_def trade_amount_def build_tx_params_reject [OF assms(2)])

lemma buy_gas_fee_exceeded:
  assumes "balanceOf ch USDT \<noteq> 0"
    and "\<not> MAX_GAS_PRICE_GWEI cfg < of_int (eth_gas_price ch) / 10 ^ 9"
    and "trade_amount cfg sig (balanceOf ch USDT) \<le> allowance ch USDT"
    and "getAmountsOut ch (trade_amount cfg sig (balanceOf ch USDT)) [USDT, WBNB, WBTC] = Some quoted"
    and "quoted \<noteq> []"
    and "\<forall>tx. estimate_gas ch tx = Some gas_estimate"
    and "MAX_GAS_FEE_BNB cfg < of_int (eth_gas_price ch * gas_estimate) / 10 ^ 18"
  shows "buy_btcb cfg ch sig st = (Inl (RuntimeError GasFeeExceedsMax),
           st\<lparr>nonce_manager_of := (nonce_manager_of st)\<lparr>nm_nonce := nm_nonce (nonce_manager_of st) + 1\<rparr>\<rparr>)"
  using assms
  by (simp add: buy_btcb_def Let_def trade_amount_def ensure_allowance_enough
      build_tx_params_pass)

lemma sell_gas_fee_exceeded:
  assumes "balanceOf ch WBTC \<noteq> 0"
    and "\<not> MAX_GAS_PRICE_GWEI cfg < of_int (eth_gas_price ch) / 10 ^ 9"
    and "trade_amount cfg sig (balanceOf ch WBTC) \<le> allowance ch WBTC"
    and "getAmountsOut ch (trade_amount cfg sig (balanceOf ch WBTC)) [WBTC, WBNB, USDT] = Some quoted"
    and "quoted \<noteq> []"
    and "\<forall>tx. estimate_gas ch tx = Some gas_estimate"
    and "MAX_GAS_FEE_BNB cfg < of_int (eth_gas_price ch * gas_estimate) / 10 ^ 18"
  shows "sell_btcb cfg ch sig st = (Inl (RuntimeError GasFeeExceedsMax),
           st\<lparr>nonce_manager_of := (nonce_manager_of st)\<lparr>nm_nonce := nm_nonce (nonce_manager_of st) + 1\<rparr>\<rparr>)"
  using assms
  by (simp add: sell_btcb_def Let_def trade_amount_def ensure_allowance_enough
      build_tx_params_pass)

lemma buy_no_quote:
  assumes "balanceOf ch USDT \<noteq> 0"
    and "trade_amount cfg sig (balanceOf ch USDT) \<le> allowance ch USDT"
    and "getAmountsOut ch (trade_amount cfg sig (balanceOf ch USDT)) [USDT, WBNB, WBTC] = None"
  shows "buy_btcb cfg ch sig st = (Inl ContractCallError, st)"
  using assms
  by (simp add: buy_btcb_def Let_def trade_amount_def ensure_allowance_enough)

lemma sell_no_quote:
  assumes "balanceOf ch WBTC \<noteq> 0"
    and "trade_amount cfg sig (balanceOf ch WBTC) \<le> allowance ch WBTC"
    and "getAmountsOut ch (trade_amount cfg sig (balanceOf ch WBTC)) [WBTC, WBNB, USDT] = None"
  shows "sell_btcb cfg ch sig st = (Inl ContractCallError, st)"
  using assms
  by (simp add: sell_btcb_def Let_def trade_amount_def ensure_allowance_enough)

lemma sample_buy_run:
  "buy_btcb default_config sample_chain buy_signal (init_state 7) =
     (Inr (''0xabc'', 8989184856231519 / 9007199254740992,
           4503599627370501 / 4503599627370496),
      \<lparr>nonce_manager_of = \<lparr>nm_nonce = 8\<rparr>, pool = True,
        pending_txs = [\<lparr>row_tx_hash = ''0xabc'', row_nonce = 7, row_gas_price = 3000000000,
                        row_sent_at = 1700000000, row_bumps = 0, row_status = ''pending''\<rparr>],
        trades = [], positions = [], errors = [], next_uuid = 0, trailing_tasks = [],
        broadcast = [\<lparr>tx_nonce = 7, tx_gasPrice = 3000000000, tx_gas = Some 200000,
          tx_call = SwapExactTokensForTokens 100000000000000000000 998000000000001024
             [USDT, WBNB, WBTC] 1700000060\<rparr>]\<rparr>)"
  by code_simp

lemma sample_trade_amount:
  "trade_amount default_config buy_signal (10 ^ 21) = 100000000000000000000"
  by code_simp

lemma default_fee_ceiling:
  "MAX_GAS_FEE_BNB default_config < of_int (5000000000 * 1000000) / 10 ^ 18"
  by code_simp

lemma gas_price_guard_keeps_state:
  assumes "MAX_GAS_PRICE_GWEI cfg < of_int (eth_gas_price ch) / 10 ^ 9"
  shows "nonce_manager_of (snd (execute cfg ch sig st)) = nonce_manager_of st
       \<and> broadcast (snd (execute cfg ch sig st)) = broadcast st
       \<and> pending_txs (snd (execute cfg ch sig st)) = pending_txs st"
proof -
  obtain eb where eb: "buy_btcb cfg ch sig st = (Inl eb, st)"
    using buy_gas_price_state [OF assms, of sig st]
    by (cases "buy_btcb cfg ch sig st") auto
  obtain es where es: "sell_btcb cfg ch sig st = (Inl es, st)"
    using sell_gas_price_state [OF assms, of sig st]
    by (cases "sell_btcb cfg ch sig st") auto
  show ?thesis
    by (simp add: execute_def eb es log_error_def)
qed

lemma costly_buy_run:
  "buy_btcb default_config costly_chain buy_signal (init_state 7) =
     (Inl (RuntimeError GasFeeExceedsMax), (init_state 7)\<lparr>nonce_manager_of := \<lparr>nm_nonce = 8\<rparr>\<rparr>)"
proof -
  have a: "balanceOf costly_chain USDT \<noteq> 0"
    by (simp add: costly_chain_def sample_chain_def)
  have b: "\<not> MAX_GAS_PRICE_GWEI default_config < of_int (eth_gas_price costly_chain) / 10 ^ 9"
    by (simp add: costly_chain_def default_config_def)
  have c: "trade_amount default_config buy_signal (balanceOf costly_chain USDT)
             \<le> allowance costly_chain USDT"
    using sample_trade_amount by (simp add: costly_chain_def sample_chain_def)
  have d: "getAmountsOut costly_chain (trade_amount default_config buy_signal
             (balanceOf costly_chain USDT)) [USDT, WBNB, WBTC]
           = Some [100000000000000000000, 10 ^ 18 + 1000]"
    using sample_trade_amount by (simp add: costly_chain_def sample_chain_def)
  have e: "\<forall>tx. estimate_gas costly_chain tx = Some 1000000"
    by (simp add: costly_chain_def)
  have f: "MAX_GAS_FEE_BNB default_config
             < of_int (eth_gas_price costly_chain * 1000000) / 10 ^ 18"
    using default_fee_ceiling by (simp add: costly_chain_def)
  have "buy_btcb default_config costly_chain buy_signal (init_state 7) =
     (Inl (RuntimeError GasFeeExceedsMax),
      (init_state 7)\<lparr>nonce_manager_of := (nonce_manager_of (init_state 7))
         \<lparr>nm_nonce := nm_nonce (nonce_manager_of (init_state 7)) + 1\<rparr>\<rparr>)"
    by (rule buy_gas_fee_exceeded [OF a b c d _ e f]) simp
  then show ?thesis by (simp add: init_state_def nonce_init_def)
qed

lemma costly_sell_exact_run:
  "(case sell_exact default_config costly_chain (1 / 2) 60000 (init_state 7) of
      (r, s) \<Rightarrow> (r, broadcast s, nm_nonce (nonce_manager_of s), length (trades s))) =
   (Inr ''0xabc'',
    [\<lparr>tx_nonce = 7, tx_gasPrice = 5000000000, tx_gas = Some 1000000,
      tx_call = SwapExactTokensForTokens 500000000000000000 998000000000001024
         [WBTC, USDT] 1700000060\<rparr>], 8, 1)"
  by code_simp

section \<open>Slippage bound\<close>

lemma buy_btcb_swap:
  assumes "buy_btcb cfg ch sig st = (Inr (h, q, e), st')"
  shows "\<exists>amount_in quoted.
           getAmountsOut ch amount_in [USDT, WBNB, WBTC] = Some quoted \<and> quoted \<noteq> [] \<and>
           tx_call (last (broadcast st')) =
             SwapExactTokensForTokens amount_in (min_out_of cfg (last quoted)) [USDT, WBNB, WBTC]
               (py_int (time_now ch) + 60) \<and>
           q = from_wei (min_out_of cfg (last quoted)) (dec_btcb ch) \<and>
           e = from_wei (last quoted) (dec_btcb ch)"
  using assms
  by (auto simp: buy_btcb_def min_out_of_def Let_def dest!: send_tx_Inr
      split: if_splits option.splits sum.splits prod.splits)

lemma sell_btcb_swap:
  assumes "sell_btcb cfg ch sig st = (Inr (h, q, a, e), st')"
  shows "\<exists>quoted.
           getAmountsOut ch a [WBTC, WBNB, USDT] = Some quoted \<and> quoted \<noteq> [] \<and>
           tx_call (last (broadcast st')) =
             SwapExactTokensForTokens a (min_out_of cfg (last quoted)) [WBTC, WBNB, USDT]
               (py_int (time_now ch) + 60) \<and>
           q = from_wei (min_out_of cfg (last quoted)) dec_usdt \<and>
           e = from_wei (last quoted) dec_usdt"
  using assms
  by (auto simp: sell_btcb_def min_out_of_def Let_def dest!: send_tx_Inr
      split: if_splits option.splits sum.splits prod.splits)

lemma fl_one [simp]: "fl 1 = 1"
  using fl_of_int [of 1] by simp

lemma py_int_nonneg: "0 \<le> x \<Longrightarrow> 0 \<le> py_int x \<and> of_int (py_int x) \<le> x \<and> x < of_int (py_int x) + 1"
  unfolding py_int_def by (simp add: floor_less_iff) linarith

lemma slippage_factor_range:
  assumes "0 \<le> T" "T \<le> 100"
  shows "0 \<le> fsub 1 (fdiv T 100)" and "fsub 1 (fdiv T 100) \<le> 1"
proof -
  have d0: "0 \<le> fdiv T 100" unfolding fdiv_def using assms by (intro fl_nonneg) simp
  have "fl (T / 100) \<le> fl 1" using assms by (intro fl_mono) simp
  then have d1: "fdiv T 100 \<le> 1" by (simp add: fdiv_def)
  show "0 \<le> fsub 1 (fdiv T 100)" unfolding fsub_def using d1 by (intro fl_nonneg) simp
  have "fl (1 - fdiv T 100) \<le> fl 1" using d0 by (intro fl_mono) simp
  then show "fsub 1 (fdiv T 100) \<le> 1" by (simp add: fsub_def)
qed

lemma slippage_factor_close:
  assumes "0 \<le> T" "T \<le> 100"
  shows "\<bar>fsub 1 (fdiv T 100) - (1 - T / 100)\<bar> \<le> 2 / 2 ^ 53"
proof -
  define d where "d = fdiv T 100"
  have d0: "0 \<le> d" unfolding d_def fdiv_def using assms by (intro fl_nonneg) simp
  have "fl (T / 100) \<le> fl 1" using assms by (intro fl_mono) simp
  then have d1: "d \<le> 1" by (simp add: d_def fdiv_def)
  have "\<bar>d - T / 100\<bar> \<le> \<bar>T / 100\<bar> / 2 ^ 53"
    unfolding d_def fdiv_def by (rule fl_err)
  also have "\<dots> \<le> 1 / 2 ^ 53" using assms by (simp add: divide_right_mono)
  finally have a: "\<bar>d - T / 100\<bar> \<le> 1 / 2 ^ 53" .
  have "\<bar>fsub 1 d - (1 - d)\<bar> \<le> \<bar>1 - d\<bar> / 2 ^ 53"
    unfolding fsub_def by (rule fl_err)
  also have "\<dots> \<le> 1 / 2 ^ 53" using d0 d1 by (simp add: divide_right_mono)
  finally have b: "\<bar>fsub 1 d - (1 - d)\<bar> \<le> 1 / 2 ^ 53" .
  show ?thesis using a b unfolding d_def by linarith
qed

lemma min_out_of_range:
  assumes "0 \<le> SLIPPAGE_TOLERANCE cfg" "SLIPPAGE_TOLERANCE cfg \<le> 100" "0 \<le> quoted_out"
  shows "0 \<le> min_out_of cfg quoted_out"
    and "of_int (min_out_of cfg quoted_out) \<le> py_float quoted_out"
proof -
  define F where "F = fsub 1 (fdiv (SLIPPAGE_TOLERANCE cfg) 100)"
  define E where "E = py_float quoted_out"
  have F: "0 \<le> F" "F \<le> 1" using slippage_factor_range [OF assms(1,2)] by (auto simp: F_def)
  have E: "0 \<le> E" unfolding E_def py_float_def using assms(3) by (intro fl_nonneg) simp
  have P0: "0 \<le> fmul E F" unfolding fmul_def using E F by (intro fl_nonneg) simp
  have "E * F \<le> E" using E F by (simp add: mult_left_le)
  then have "fl (E * F) \<le> fl E" by (rule fl_mono)
  then have P1: "fmul E F \<le> E" by (simp add: fmul_def E_def py_float_def fl_idem)
  have m: "min_out_of cfg quoted_out = py_int (fmul E F)"
    by (simp add: min_out_of_def E_def F_def)
  show "0 \<le> min_out_of cfg quoted_out" using py_int_nonneg [OF P0] m by simp
  show "of_int (min_out_of cfg quoted_out) \<le> py_float quoted_out"
    using py_int_nonneg [OF P0] m P1 by (simp add: E_def)
qed

lemma min_out_of_le_small:
  assumes "0 \<le> SLIPPAGE_TOLERANCE cfg" "SLIPPAGE_TOLERANCE cfg \<le> 100"
    "0 \<le> quoted_out" "quoted_out \<le> 2 ^ 53"
  shows "min_out_of cfg quoted_out \<le> quoted_out"
proof -
  have "py_float quoted_out = of_int quoted_out"
    unfolding py_float_def using assms(3,4) by (intro fl_of_int) simp
  then have "(of_int (min_out_of cfg quoted_out) :: rat) \<le> of_int quoted_out"
    using min_out_of_range(2) [OF assms(1,2,3)] by simp
  then show ?thesis by (simp only: of_int_le_iff)
qed

lemma min_out_of_close:
  assumes "0 \<le> SLIPPAGE_TOLERANCE cfg" "SLIPPAGE_TOLERANCE cfg \<le> 100" "0 \<le> quoted_out"
  shows "\<bar>of_int (min_out_of cfg quoted_out)
           - of_int quoted_out * (1 - SLIPPAGE_TOLERANCE cfg / 100)\<bar>
         \<le> of_int quoted_out / 2 ^ 50 + 1"
    and "fmul (py_float quoted_out) (fsub 1 (fdiv (SLIPPAGE_TOLERANCE cfg) 100))
           \<le> of_int quoted_out * (1 - SLIPPAGE_TOLERANCE cfg / 100) + of_int quoted_out / 2 ^ 50"
proof -
  define t where "t = SLIPPAGE_TOLERANCE cfg / 100"
  define F where "F = fsub 1 (fdiv (SLIPPAGE_TOLERANCE cfg) 100)"
  define E where "E = py_float quoted_out"
  define q :: rat where "q = of_int quoted_out"
  define P where "P = fmul E F"
  define eps :: rat where "eps = 1 / 2 ^ 53"
  have q0: "0 \<le> q" using assms(3) by (simp add: q_def)
  have eps: "0 < eps" "eps \<le> 1" by (simp_all add: eps_def)
  have F: "0 \<le> F" "F \<le> 1" using slippage_factor_range [OF assms(1,2)] by (auto simp: F_def)
  have Fc: "\<bar>F - (1 - t)\<bar> \<le> 2 * eps"
    using slippage_factor_close [OF assms(1,2)] by (simp add: F_def t_def eps_def)
  have E0: "0 \<le> E" unfolding E_def py_float_def using assms(3) by (intro fl_nonneg) simp
  have "\<bar>E - q\<bar> \<le> \<bar>q\<bar> / 2 ^ 53" unfolding E_def py_float_def q_def by (rule fl_err)
  then have Ec: "\<bar>E - q\<bar> \<le> q * eps" using q0 by (simp add: eps_def)
  have "\<bar>P - E * F\<bar> \<le> \<bar>E * F\<bar> / 2 ^ 53" unfolding P_def fmul_def by (rule fl_err)
  then have Pc1: "\<bar>P - E * F\<bar> \<le> E * F * eps" using E0 F by (simp add: eps_def)
  have EF: "E * F \<le> E" using E0 F by (simp add: mult_left_le)
  have Ele: "E \<le> q * (1 + eps)" using Ec by (simp add: algebra_simps abs_le_iff)
  have "E * F * eps \<le> E * eps" using EF eps by (simp add: mult_right_mono)
  also have "\<dots> \<le> q * (1 + eps) * eps" using Ele eps by (simp add: mult_right_mono)
  also have "\<dots> \<le> q * 2 * eps"
  proof -
    have "q * (1 + eps) \<le> q * 2" using q0 eps by (intro mult_left_mono) simp_all
    then show ?thesis using eps by (simp add: mult_right_mono)
  qed
  finally have Pc: "\<bar>P - E * F\<bar> \<le> 2 * q * eps" using Pc1 by (simp add: mult.commute mult.left_commute)
  have split: "E * F - q * (1 - t) = (E - q) * F + q * (F - (1 - t))"
    by (simp add: algebra_simps)
  have "\<bar>(E - q) * F\<bar> \<le> q * eps"
  proof -
    have "\<bar>(E - q) * F\<bar> = \<bar>E - q\<bar> * F" using F by (simp add: abs_mult)
    also have "\<dots> \<le> \<bar>E - q\<bar> * 1" using F by (intro mult_left_mono) simp_all
    finally show ?thesis using Ec by simp
  qed
  moreover have "\<bar>q * (F - (1 - t))\<bar> \<le> q * (2 * eps)"
  proof -
    have "\<bar>q * (F - (1 - t))\<bar> = q * \<bar>F - (1 - t)\<bar>" using q0 by (simp add: abs_mult)
    also have "\<dots> \<le> q * (2 * eps)" using Fc q0 by (intro mult_left_mono) simp_all
    finally show ?thesis .
  qed
  ultimately have EFc: "\<bar>E * F - q * (1 - t)\<bar> \<le> 3 * q * eps"
    unfolding split by linarith
  have "\<bar>P - q * (1 - t)\<bar> \<le> 5 * q * eps" using Pc EFc by linarith
  also have "\<dots> \<le> q / 2 ^ 50" using q0 by (simp add: eps_def)
  finally have close: "\<bar>P - q * (1 - t)\<bar> \<le> q / 2 ^ 50" .
  have P0: "0 \<le> P" unfolding P_def fmul_def using E0 F by (intro fl_nonneg) simp
  have m: "min_out_of cfg quoted_out = py_int P"
    by (simp add: min_out_of_def E_def F_def P_def)
  have "of_int (py_int P) \<le> P" "P < of_int (py_int P) + 1" using py_int_nonneg [OF P0] by auto
  then show "\<bar>of_int (min_out_of cfg quoted_out)
           - of_int quoted_out * (1 - SLIPPAGE_TOLERANCE cfg / 100)\<bar>
         \<le> of_int quoted_out / 2 ^ 50 + 1"
    using close unfolding m q_def [symmetric] t_def [symmetric] by linarith
  show "fmul (py_float quoted_out) (fsub 1 (fdiv (SLIPPAGE_TOLERANCE cfg) 100))
           \<le> of_int quoted_out * (1 - SLIPPAGE_TOLERANCE cfg / 100) + of_int quoted_out / 2 ^ 50"
    using close unfolding P_def E_def F_def q_def t_def by linarith
qed

lemma min_out_of_le:
  assumes "100 / 2 ^ 50 \<le> SLIPPAGE_TOLERANCE cfg" "SLIPPAGE_TOLERANCE cfg \<le> 100" "0 \<le> quoted_out"
  shows "min_out_of cfg quoted_out \<le> quoted_out"
proof -
  define t where "t = SLIPPAGE_TOLERANCE cfg / 100"
  define q :: rat where "q = of_int quoted_out"
  define P where "P = fmul (py_float quoted_out) (fsub 1 (fdiv (SLIPPAGE_TOLERANCE cfg) 100))"
  have T0: "0 \<le> SLIPPAGE_TOLERANCE cfg" using assms(1) by (rule order_trans [rotated]) simp
  have q0: "0 \<le> q" using assms(3) by (simp add: q_def)
  have t: "1 / 2 ^ 50 \<le> t" using assms(1) by (simp add: t_def)
  have "P \<le> q * (1 - t) + q / 2 ^ 50"
    using min_out_of_close(2) [OF T0 assms(2,3)] by (simp add: P_def q_def t_def)
  moreover have "q * (1 / 2 ^ 50) \<le> q * t" using t q0 by (rule mult_left_mono)
  ultimately have "P \<le> q" by (simp add: algebra_simps)
  moreover have "of_int (min_out_of cfg quoted_out) \<le> P"
  proof -
    have "0 \<le> P" unfolding P_def fmul_def
      using slippage_factor_range(1) [OF T0 assms(2)] assms(3)
      by (intro fl_nonneg mult_nonneg_nonneg) (simp_all add: py_float_def fl_nonneg)
    then show ?thesis using py_int_nonneg [of P] by (simp add: min_out_of_def P_def)
  qed
  ultimately have "(of_int (min_out_of cfg quoted_out) :: rat) \<le> of_int quoted_out"
    by (simp add: q_def)
  then show ?thesis by (simp only: of_int_le_iff)
qed

text \<open>
  C2 as stated fails. With the default tolerance (0.2 percent) and a quote of
  10^18 + 1000, the buy path sends a swap whose minimum is 998000000000001024. That is
  the double-precision product truncated; the floor of the exact product is
  998000000000000997 for the float 0.2, 998000000000000998 for the decimal 0.2, and
  neither is the value sent. Read with t as the configured number itself, the formula
  gives 8 * 10^17 + 800.
\<close>

theorem slippage_min_out_not_floor:
  "broadcast (snd (buy_btcb default_config sample_chain buy_signal (init_state 7))) =
     [\<lparr>tx_nonce = 7, tx_gasPrice = 3000000000, tx_gas = Some 200000,
       tx_call = SwapExactTokensForTokens 100000000000000000000 998000000000001024
          [USDT, WBNB, WBTC] 1700000060\<rparr>]
   \<and> getAmountsOut sample_chain 100000000000000000000 [USDT, WBNB, WBTC]
         = Some [100000000000000000000, 10 ^ 18 + 1000]
   \<and> (998000000000001024 :: int)
         \<noteq> \<lfloor>(10 ^ 18 + 1000) * (1 - SLIPPAGE_TOLERANCE default_config / 100)\<rfloor>
   \<and> (998000000000001024 :: int) \<noteq> \<lfloor>(10 ^ 18 + 1000) * (1 - (2 / 1000 :: rat))\<rfloor>
   \<and> (998000000000001024 :: int)
         \<noteq> \<lfloor>(10 ^ 18 + 1000) * (1 - SLIPPAGE_TOLERANCE default_config)\<rfloor>"
proof -
  have a: "broadcast (snd (buy_btcb default_config sample_chain buy_signal (init_state 7))) =
     [\<lparr>tx_nonce = 7, tx_gasPrice = 3000000000, tx_gas = Some 200000,
       tx_call = SwapExactTokensForTokens 100000000000000000000 998000000000001024
          [USDT, WBNB, WBTC] 1700000060\<rparr>]"
    by (simp add: sample_buy_run)
  have b: "getAmountsOut sample_chain 100000000000000000000 [USDT, WBNB, WBTC]
         = Some [100000000000000000000, 10 ^ 18 + 1000]"
    by (simp add: sample_chain_def)
  have c: "(998000000000001024 :: int)
         \<noteq> \<lfloor>(10 ^ 18 + 1000) * (1 - SLIPPAGE_TOLERANCE default_config / 100)\<rfloor>"
    by code_simp
  have d: "(998000000000001024 :: int) \<noteq> \<lfloor>(10 ^ 18 + 1000) * (1 - (2 / 1000 :: rat))\<rfloor>"
    by code_simp
  have e: "(998000000000001024 :: int)
         \<noteq> \<lfloor>(10 ^ 18 + 1000) * (1 - SLIPPAGE_TOLERANCE default_config)\<rfloor>"
    by code_simp
  show ?thesis using a b c d e by blast
qed

text \<open>
  C2, amended. In the buy path and in the sell path the swap that is sent carries
  \<open>min_out = int(expected_out * (1 - T / 100))\<close>, computed in double-precision floats,
  where \<open>expected_out\<close> is the last element of the router quote and T is the configured
  tolerance in percent. For 0 \<le> T \<le> 100 and a quote that is not negative, \<open>min_out\<close> is
  not negative, is not greater than \<open>float(expected_out)\<close>, differs from
  \<open>expected_out * (1 - T / 100)\<close> by at most \<open>expected_out / 2^50 + 1\<close>, and is not
  greater than \<open>expected_out\<close> when the quote is at most 2^53 or T is at least 100 / 2^50.
\<close>

theorem slippage_min_out_bound:
  assumes "0 \<le> SLIPPAGE_TOLERANCE cfg" and "SLIPPAGE_TOLERANCE cfg \<le> 100"
    and "0 \<le> quoted_out"
  shows "(\<forall>h q e st'. buy_btcb cfg ch sig st = (Inr (h, q, e), st') \<longrightarrow>
            (\<exists>amount_in quoted.
               getAmountsOut ch amount_in [USDT, WBNB, WBTC] = Some quoted \<and> quoted \<noteq> [] \<and>
               tx_call (last (broadcast st')) =
                 SwapExactTokensForTokens amount_in (min_out_of cfg (last quoted))
                   [USDT, WBNB, WBTC] (py_int (time_now ch) + 60)))
       \<and> (\<forall>h q a e st'. sell_btcb cfg ch sig st = (Inr (h, q, a, e), st') \<longrightarrow>
            (\<exists>quoted.
               getAmountsOut ch a [WBTC, WBNB, USDT] = Some quoted \<and> quoted \<noteq> [] \<and>
               tx_call (last (broadcast st')) =
                 SwapExactTokensForTokens a (min_out_of cfg (last quoted))
                   [WBTC, WBNB, USDT] (py_int (time_now ch) + 60)))
       \<and> 0 \<le> min_out_of cfg quoted_out
       \<and> of_int (min_out_of cfg quoted_out) \<le> py_float quoted_out
       \<and> \<bar>of_int (min_out_of cfg quoted_out)
             - of_int quoted_out * (1 - SLIPPAGE_TOLERANCE cfg / 100)\<bar>
           \<le> of_int quoted_out / 2 ^ 50 + 1
       \<and> (quoted_out \<le> 2 ^ 53 \<or> 100 / 2 ^ 50 \<le> SLIPPAGE_TOLERANCE cfg
            \<longrightarrow> min_out_of cfg quoted_out \<le> quoted_out)"
proof -
  have buy: "\<forall>h q e st'. buy_btcb cfg ch sig st = (Inr (h, q, e), st') \<longrightarrow>
            (\<exists>amount_in quoted.
               getAmountsOut ch amount_in [USDT, WBNB, WBTC] = Some quoted \<and> quoted \<noteq> [] \<and>
               tx_call (last (broadcast st')) =
                 SwapExactTokensForTokens amount_in (min_out_of cfg (last quoted))
                   [USDT, WBNB, WBTC] (py_int (time_now ch) + 60))"
    using buy_btcb_swap [of cfg ch sig st] by blast
  have sell: "\<forall>h q a e st'. sell_btcb cfg ch sig st = (Inr (h, q, a, e), st') \<longrightarrow>
            (\<exists>quoted.
               getAmountsOut ch a [WBTC, WBNB, USDT] = Some quoted \<and> quoted \<noteq> [] \<and>
               tx_call (last (broadcast st')) =
                 SwapExactTokensForTokens a (min_out_of cfg (last quoted))
                   [WBTC, WBNB, USDT] (py_int (time_now ch) + 60))"
    using sell_btcb_swap [of cfg ch sig st] by blast
  have le: "quoted_out \<le> 2 ^ 53 \<or> 100 / 2 ^ 50 \<le> SLIPPAGE_TOLERANCE cfg
            \<longrightarrow> min_out_of cfg quoted_out \<le> quoted_out"
    using min_out_of_le_small [OF assms] min_out_of_le [OF _ assms(2,3)] by blast
  show ?thesis
    using buy sell le min_out_of_range [OF assms] min_out_of_close(1) [OF assms] by blast
qed

theorem slippage_min_out_bound_witness:
  "0 \<le> SLIPPAGE_TOLERANCE default_config \<and> SLIPPAGE_TOLERANCE default_config \<le> 100
   \<and> 100 / 2 ^ 50 \<le> SLIPPAGE_TOLERANCE default_config
   \<and> (0 :: int) \<le> 10 ^ 18 + 1000
   \<and> fst (buy_btcb default_config sample_chain buy_signal (init_state 7)) =
       Inr (''0xabc'', 8989184856231519 / 9007199254740992,
            4503599627370501 / 4503599627370496)
   \<and> (\<exists>amount_in quoted.
         getAmountsOut sample_chain amount_in [USDT, WBNB, WBTC] = Some quoted \<and> quoted \<noteq> [] \<and>
         tx_call (last (broadcast (snd (buy_btcb default_config sample_chain buy_signal
                                          (init_state 7))))) =
           SwapExactTokensForTokens amount_in (min_out_of default_config (last quoted))
             [USDT, WBNB, WBTC] (py_int (time_now sample_chain) + 60))
   \<and> min_out_of default_config (10 ^ 18 + 1000) \<le> 10 ^ 18 + 1000
   \<and> \<bar>of_int (min_out_of default_config (10 ^ 18 + 1000))
         - of_int (10 ^ 18 + 1000) * (1 - SLIPPAGE_TOLERANCE default_config / 100)\<bar>
       \<le> of_int (10 ^ 18 + 1000) / 2 ^ 50 + 1"
proof -
  have h1: "0 \<le> SLIPPAGE_TOLERANCE default_config" by code_simp
  have h2: "SLIPPAGE_TOLERANCE default_config \<le> 100" by code_simp
  have h3: "(0 :: int) \<le> 10 ^ 18 + 1000" by simp
  have h4: "100 / 2 ^ 50 \<le> SLIPPAGE_TOLERANCE default_config" by code_simp
  have run: "fst (buy_btcb default_config sample_chain buy_signal (init_state 7)) =
       Inr (''0xabc'', 8989184856231519 / 9007199254740992,
            4503599627370501 / 4503599627370496)"
    by (simp add: sample_buy_run)
  obtain st' where st': "buy_btcb default_config sample_chain buy_signal (init_state 7) =
       (Inr (''0xabc'', 8989184856231519 / 9007199254740992,
             4503599627370501 / 4503599627370496), st')"
    using run by (cases "buy_btcb default_config sample_chain buy_signal (init_state 7)") simp
  have st'_eq: "st' = snd (buy_btcb default_config sample_chain buy_signal (init_state 7))"
    using st' by simp
  note inst = slippage_min_out_bound [OF h1 h2 h3, of sample_chain buy_signal "init_state 7"]
  show ?thesis
    using inst h1 h2 h3 h4 run st' unfolding st'_eq by blast
qed

section \<open>What execute gives its caller, and the gas guards\<close>

text \<open>
  C3 as stated fails. On the sample chain the buy step succeeds with a hash and a filled
  amount, and \<open>execute\<close> gives its caller \<open>None\<close>, not that pair. With a zero USDT
  balance the buy step raises, and \<open>execute\<close> again gives \<open>None\<close>: the exception ends in
  the \<open>errors\<close> table and does not reach the caller.
\<close>

theorem execute_gives_caller_none:
  "fst (buy_btcb default_config sample_chain buy_signal (init_state 7)) =
     Inr (''0xabc'', 8989184856231519 / 9007199254740992,
          4503599627370501 / 4503599627370496)
   \<and> fst (execute default_config sample_chain buy_signal (init_state 7)) = Inr None
   \<and> fst (execute default_config sample_chain buy_signal (init_state 7))
         \<noteq> Inr (Some (''0xabc'', 8989184856231519 / 9007199254740992))
   \<and> balanceOf broke_chain USDT = 0
   \<and> fst (execute default_config broke_chain buy_signal (init_state 7)) = Inr None
   \<and> fst (execute default_config broke_chain buy_signal (init_state 7))
         \<noteq> Inl (RuntimeError UsdtBalanceZero)
   \<and> errors (snd (execute default_config broke_chain buy_signal (init_state 7))) =
         [(''trade_executor'', RuntimeError UsdtBalanceZero)]"
proof -
  have z: "balanceOf broke_chain USDT = 0" by (simp add: broke_chain_def)
  have "snd (execute default_config broke_chain buy_signal (init_state 7)) =
      log_error ''trade_executor'' (RuntimeError UsdtBalanceZero) (init_state 7)"
    by (rule execute_buy_error [OF _ buy_zero_balance [OF z]]) (simp add: buy_signal_def)
  then have e: "errors (snd (execute default_config broke_chain buy_signal (init_state 7))) =
         [(''trade_executor'', RuntimeError UsdtBalanceZero)]"
    by (simp add: log_error_def init_state_def)
  show ?thesis
    using z e by (simp add: sample_buy_run execute_returns_none)
qed

text \<open>
  C3, amended. \<open>execute(signal)\<close> returns \<open>None\<close> to its caller on every path and raises
  nothing. When the buy or sell step succeeds, its hash and amount go into a new Trade row
  and the \<open>errors\<close> table is left alone. When the step raises, \<open>execute\<close> writes the
  exception to the \<open>errors\<close> table under \<open>trade_executor\<close>. The step raises: a
  RuntimeError when the source token balance is zero; a RuntimeError when the gas price is
  above \<open>MAX_GAS_PRICE_GWEI\<close>; a RuntimeError when gas price times gas estimate is above
  \<open>MAX_GAS_FEE_BNB\<close>; and the error of the router call when the quote fails.
\<close>

theorem execute_returns_none_and_logs:
  "fst (execute cfg ch sig st) = Inr None
   \<and> (\<forall>h q x st1. action sig = ''buy'' \<and> buy_btcb cfg ch sig st = (Inr (h, q, x), st1) \<longrightarrow>
         trades (snd (execute cfg ch sig st)) = trades st1 @
           [\<lparr>t_trade_type = ''buy'', t_amount = q, t_entry_price = dex_price sig,
             t_exit_price = 0, t_profit = 0, t_profit_usd = 0, t_expected_out = x,
             t_tx_hash = h\<rparr>]
         \<and> errors (snd (execute cfg ch sig st)) = errors st1)
   \<and> (\<forall>h q a x st1. action sig = ''sell'' \<and> sell_btcb cfg ch sig st = (Inr (h, q, a, x), st1) \<longrightarrow>
         (\<exists>row. trades (snd (execute cfg ch sig st)) = trades st1 @ [row] \<and>
            t_trade_type row = ''sell'' \<and> t_amount row = from_wei a (dec_btcb ch) \<and>
            t_exit_price row = dex_price sig \<and> t_expected_out row = x \<and> t_tx_hash row = h)
         \<and> errors (snd (execute cfg ch sig st)) = errors st1)
   \<and> (\<forall>e st1. action sig = ''buy'' \<and> buy_btcb cfg ch sig st = (Inl e, st1) \<longrightarrow>
         snd (execute cfg ch sig st) = log_error ''trade_executor'' e st1)
   \<and> (\<forall>e st1. action sig = ''sell'' \<and> sell_btcb cfg ch sig st = (Inl e, st1) \<longrightarrow>
         snd (execute cfg ch sig st) = log_error ''trade_executor'' e st1)
   \<and> (balanceOf ch USDT = 0 \<longrightarrow>
         buy_btcb cfg ch sig st = (Inl (RuntimeError UsdtBalanceZero), st))
   \<and> (balanceOf ch WBTC = 0 \<longrightarrow>
         sell_btcb cfg ch sig st = (Inl (RuntimeError BtcbBalanceZero), st))
   \<and> (balanceOf ch USDT \<noteq> 0
        \<and> MAX_GAS_PRICE_GWEI cfg < of_int (eth_gas_price ch) / 10 ^ 9
        \<and> (\<exists>quoted. getAmountsOut ch (trade_amount cfg sig (balanceOf ch USDT))
                       [USDT, WBNB, WBTC] = Some quoted \<and> quoted \<noteq> []) \<longrightarrow>
         buy_btcb cfg ch sig st = (Inl (RuntimeError GasPriceTooHigh), st))
   \<and> (balanceOf ch WBTC \<noteq> 0
        \<and> MAX_GAS_PRICE_GWEI cfg < of_int (eth_gas_price ch) / 10 ^ 9
        \<and> (\<exists>quoted. getAmountsOut ch (trade_amount cfg sig (balanceOf ch WBTC))
                       [WBTC, WBNB, USDT] = Some quoted \<and> quoted \<noteq> []) \<longrightarrow>
         sell_btcb cfg ch sig st = (Inl (RuntimeError GasPriceTooHigh), st))
   \<and> (balanceOf ch USDT \<noteq> 0
        \<and> \<not> MAX_GAS_PRICE_GWEI cfg < of_int (eth_gas_price ch) / 10 ^ 9
        \<and> trade_amount cfg sig (balanceOf ch USDT) \<le> allowance ch USDT
        \<and> (\<exists>quoted. getAmountsOut ch (trade_amount cfg sig (balanceOf ch USDT))
                       [USDT, WBNB, WBTC] = Some quoted \<and> quoted \<noteq> [])
        \<and> (\<forall>tx. estimate_gas ch tx = Some gas_estimate)
        \<and> MAX_GAS_FEE_BNB cfg < of_int (eth_gas_price ch * gas_estimate) / 10 ^ 18 \<longrightarrow>
         fst (buy_btcb cfg ch sig st) = Inl (RuntimeError GasFeeExceedsMax))
   \<and> (balanceOf ch WBTC \<noteq> 0
        \<and> \<not> MAX_GAS_PRICE_GWEI cfg < of_int (eth_gas_price ch) / 10 ^ 9
        \<and> trade_amount cfg sig (balanceOf ch WBTC) \<le> allowance ch WBTC
        \<and> (\<exists>quoted. getAmountsOut ch (trade_amount cfg sig (balanceOf ch WBTC))
                       [WBTC, WBNB, USDT] = Some quoted \<and> quoted \<noteq> [])
        \<and> (\<forall>tx. estimate_gas ch tx = Some gas_estimate)
        \<and> MAX_GAS_FEE_BNB cfg < of_int (eth_gas_price ch * gas_estimate) / 10 ^ 18 \<longrightarrow>
         fst (sell_btcb cfg ch sig st) = Inl (RuntimeError GasFeeExceedsMax))
   \<and> (balanceOf ch USDT \<noteq> 0
        \<and> trade_amount cfg sig (balanceOf ch USDT) \<le> allowance ch USDT
        \<and> getAmountsOut ch (trade_amount cfg sig (balanceOf ch USDT)) [USDT, WBNB, WBTC] = None
        \<longrightarrow> buy_btcb cfg ch sig st = (Inl ContractCallError, st))
   \<and> (balanceOf ch WBTC \<noteq> 0
        \<and> trade_amount cfg sig (balanceOf ch WBTC) \<le> allowance ch WBTC
        \<and> getAmountsOut ch (trade_amount cfg sig (balanceOf ch WBTC)) [WBTC, WBNB, USDT] = None
        \<longrightarrow> sell_btcb cfg ch sig st = (Inl ContractCallError, st))"
proof (intro conjI allI impI)
  show "fst (execute cfg ch sig st) = Inr None" by (rule execute_returns_none)
qed (auto simp: execute_buy_success execute_sell_success execute_buy_error execute_sell_error
      buy_zero_balance sell_zero_balance buy_gas_price_exceeded sell_gas_price_exceeded
      buy_gas_fee_exceeded sell_gas_fee_exceeded buy_no_quote sell_no_quote)

theorem execute_returns_none_and_logs_witness:
  "fst (buy_btcb default_config sample_chain buy_signal (init_state 7)) =
     Inr (''0xabc'', 8989184856231519 / 9007199254740992,
          4503599627370501 / 4503599627370496)
   \<and> fst (execute default_config sample_chain buy_signal (init_state 7)) = Inr None
   \<and> trades (snd (execute default_config sample_chain buy_signal (init_state 7))) =
       [\<lparr>t_trade_type = ''buy'', t_amount = 8989184856231519 / 9007199254740992,
         t_entry_price = 60000, t_exit_price = 0, t_profit = 0, t_profit_usd = 0,
         t_expected_out = 4503599627370501 / 4503599627370496, t_tx_hash = ''0xabc''\<rparr>]
   \<and> balanceOf broke_chain USDT = 0
   \<and> snd (execute default_config broke_chain buy_signal (init_state 7)) =
       log_error ''trade_executor'' (RuntimeError UsdtBalanceZero) (init_state 7)
   \<and> MAX_GAS_PRICE_GWEI default_config < of_int (eth_gas_price congested_chain) / 10 ^ 9
   \<and> buy_btcb default_config congested_chain buy_signal (init_state 7) =
       (Inl (RuntimeError GasPriceTooHigh), init_state 7)
   \<and> MAX_GAS_FEE_BNB default_config < of_int (eth_gas_price costly_chain * 1000000) / 10 ^ 18
   \<and> fst (buy_btcb default_config costly_chain buy_signal (init_state 7)) =
       Inl (RuntimeError GasFeeExceedsMax)
   \<and> getAmountsOut quoteless_chain (trade_amount default_config buy_signal
         (balanceOf quoteless_chain USDT)) [USDT, WBNB, WBTC] = None
   \<and> buy_btcb default_config quoteless_chain buy_signal (init_state 7) =
       (Inl ContractCallError, init_state 7)"
proof -
  have act: "action buy_signal = ''buy''" by (simp add: buy_signal_def)
  have dp: "dex_price buy_signal = 60000" by (simp add: buy_signal_def)
  have amt: "trade_amount default_config buy_signal (10 ^ 21) = 100000000000000000000"
    by (rule sample_trade_amount)
  have p1: "fst (execute default_config sample_chain buy_signal (init_state 7)) = Inr None"
    by (rule execute_returns_none_and_logs [THEN conjunct1])
  have "trades (snd (execute default_config sample_chain buy_signal (init_state 7))) =
      trades (snd (buy_btcb default_config sample_chain buy_signal (init_state 7))) @
       [\<lparr>t_trade_type = ''buy'', t_amount = 8989184856231519 / 9007199254740992,
         t_entry_price = dex_price buy_signal, t_exit_price = 0, t_profit = 0,
         t_profit_usd = 0, t_expected_out = 4503599627370501 / 4503599627370496,
         t_tx_hash = ''0xabc''\<rparr>]"
    by (rule execute_returns_none_and_logs
        [THEN conjunct2, THEN conjunct1, rule_format, THEN conjunct1])
      (simp add: act sample_buy_run)
  then have p2: "trades (snd (execute default_config sample_chain buy_signal (init_state 7))) =
       [\<lparr>t_trade_type = ''buy'', t_amount = 8989184856231519 / 9007199254740992,
         t_entry_price = 60000, t_exit_price = 0, t_profit = 0, t_profit_usd = 0,
         t_expected_out = 4503599627370501 / 4503599627370496, t_tx_hash = ''0xabc''\<rparr>]"
    by (simp add: sample_buy_run dp)
  have z: "balanceOf broke_chain USDT = 0" by (simp add: broke_chain_def)
  have b1: "buy_btcb default_config broke_chain buy_signal (init_state 7) =
      (Inl (RuntimeError UsdtBalanceZero), init_state 7)"
    by (rule execute_returns_none_and_logs
        [THEN conjunct2, THEN conjunct2, THEN conjunct2, THEN conjunct2, THEN conjunct2,
         THEN conjunct1, rule_format]) (rule z)
  have p3: "snd (execute default_config broke_chain buy_signal (init_state 7)) =
       log_error ''trade_executor'' (RuntimeError UsdtBalanceZero) (init_state 7)"
    by (rule execute_returns_none_and_logs
        [THEN conjunct2, THEN conjunct2, THEN conjunct2, THEN conjunct1, rule_format])
      (simp add: act b1)
  have g1: "MAX_GAS_PRICE_GWEI default_config < of_int (eth_gas_price congested_chain) / 10 ^ 9"
    by (simp add: congested_chain_def default_config_def)
  have g2: "balanceOf congested_chain USDT \<noteq> 0"
    by (simp add: congested_chain_def sample_chain_def)
  have g3: "\<exists>quoted. getAmountsOut congested_chain (trade_amount default_config buy_signal
               (balanceOf congested_chain USDT)) [USDT, WBNB, WBTC] = Some quoted \<and> quoted \<noteq> []"
    by (simp add: congested_chain_def sample_chain_def)
  have p4: "buy_btcb default_config congested_chain buy_signal (init_state 7) =
       (Inl (RuntimeError GasPriceTooHigh), init_state 7)"
    by (rule execute_returns_none_and_logs
        [THEN conjunct2, THEN conjunct2, THEN conjunct2, THEN conjunct2, THEN conjunct2,
         THEN conjunct2, THEN conjunct2, THEN conjunct1, rule_format])
      (intro conjI g1 g2 g3)
  have f1: "MAX_GAS_FEE_BNB default_config
      < of_int (eth_gas_price costly_chain * 1000000) / 10 ^ 18"
    using default_fee_ceiling by (simp add: costly_chain_def)
  have f2: "balanceOf costly_chain USDT \<noteq> 0"
    by (simp add: costly_chain_def sample_chain_def)
  have f3: "\<not> MAX_GAS_PRICE_GWEI default_config < of_int (eth_gas_price costly_chain) / 10 ^ 9"
    by (simp add: costly_chain_def default_config_def)
  have f4: "trade_amount default_config buy_signal (balanceOf costly_chain USDT)
             \<le> allowance costly_chain USDT"
    using amt by (simp add: costly_chain_def sample_chain_def)
  have f5: "\<exists>quoted. getAmountsOut costly_chain (trade_amount default_config buy_signal
               (balanceOf costly_chain USDT)) [USDT, WBNB, WBTC] = Some quoted \<and> quoted \<noteq> []"
    by (simp add: costly_chain_def sample_chain_def)
  have f6: "\<forall>tx. estimate_gas costly_chain tx = Some 1000000"
    by (simp add: costly_chain_def)
  have p5: "fst (buy_btcb default_config costly_chain buy_signal (init_state 7)) =
       Inl (RuntimeError GasFeeExceedsMax)"
    by (rule execute_returns_none_and_logs
        [THEN conjunct2, THEN conjunct2, THEN conjunct2, THEN conjunct2, THEN conjunct2,
         THEN conjunct2, THEN conjunct2, THEN conjunct2, THEN conjunct2, THEN conjunct1,
         rule_format, of _ _ _ 1000000])
      (intro conjI f1 f2 f3 f4 f5 f6)
  have q1: "getAmountsOut quoteless_chain (trade_amount default_config buy_signal
         (balanceOf quoteless_chain USDT)) [USDT, WBNB, WBTC] = None"
    by (simp add: quoteless_chain_def)
  have q2: "balanceOf quoteless_chain USDT \<noteq> 0"
    by (simp add: quoteless_chain_def sample_chain_def)
  have q3: "trade_amount default_config buy_signal (balanceOf quoteless_chain USDT)
             \<le> allowance quoteless_chain USDT"
    using amt by (simp add: quoteless_chain_def sample_chain_def)
  have p6: "buy_btcb default_config quoteless_chain buy_signal (init_state 7) =
       (Inl ContractCallError, init_state 7)"
    by (rule execute_returns_none_and_logs
        [THEN conjunct2, THEN conjunct2, THEN conjunct2, THEN conjunct2, THEN conjunct2,
         THEN conjunct2, THEN conjunct2, THEN conjunct2, THEN conjunct2, THEN conjunct2,
         THEN conjunct2, THEN conjunct1, rule_format])
      (intro conjI q1 q2 q3)
  have r: "fst (buy_btcb default_config sample_chain buy_signal (init_state 7)) =
     Inr (''0xabc'', 8989184856231519 / 9007199254740992,
          4503599627370501 / 4503599627370496)"
    by (simp add: sample_buy_run)
  show ?thesis
    by (intro conjI r p1 p2 z p3 g1 p4 f1 p5 q1 p6)
qed

text \<open>
  C4 fails on the fee guard. On a chain whose gas price is at the ceiling (5 gwei) and
  whose gas estimate is 1,000,000, the fee is 0.005 BNB, above \<open>MAX_GAS_FEE_BNB\<close>. The
  buy is rejected before anything is signed or sent, but \<open>_build_tx_params\<close> has already
  taken nonce 7: the counter is 8 after the failed attempt.
\<close>

theorem fee_guard_rejection_takes_nonce:
  "nm_nonce (nonce_manager_of (init_state 7)) = 7
   \<and> \<not> MAX_GAS_PRICE_GWEI default_config < of_int (eth_gas_price costly_chain) / 10 ^ 9
   \<and> MAX_GAS_FEE_BNB default_config < of_int (eth_gas_price costly_chain * 1000000) / 10 ^ 18
   \<and> fst (buy_btcb default_config costly_chain buy_signal (init_state 7)) =
       Inl (RuntimeError GasFeeExceedsMax)
   \<and> nm_nonce (nonce_manager_of
         (snd (execute default_config costly_chain buy_signal (init_state 7)))) = 8
   \<and> broadcast (snd (execute default_config costly_chain buy_signal (init_state 7))) = []
   \<and> pending_txs (snd (execute default_config costly_chain buy_signal (init_state 7))) = []
   \<and> errors (snd (execute default_config costly_chain buy_signal (init_state 7))) =
       [(''trade_executor'', RuntimeError GasFeeExceedsMax)]"
proof -
  have f1: "MAX_GAS_FEE_BNB default_config
      < of_int (eth_gas_price costly_chain * 1000000) / 10 ^ 18"
    using default_fee_ceiling by (simp add: costly_chain_def)
  have f3: "\<not> MAX_GAS_PRICE_GWEI default_config < of_int (eth_gas_price costly_chain) / 10 ^ 9"
    by (simp add: costly_chain_def default_config_def)
  have "snd (execute default_config costly_chain buy_signal (init_state 7)) =
      log_error ''trade_executor'' (RuntimeError GasFeeExceedsMax)
        ((init_state 7)\<lparr>nonce_manager_of := \<lparr>nm_nonce = 8\<rparr>\<rparr>)"
    by (rule execute_buy_error [OF _ costly_buy_run]) (simp add: buy_signal_def)
  then have s: "snd (execute default_config costly_chain buy_signal (init_state 7)) =
      \<lparr>nonce_manager_of = \<lparr>nm_nonce = 8\<rparr>, pool = True, pending_txs = [], trades = [],
        positions = [], errors = [(''trade_executor'', RuntimeError GasFeeExceedsMax)],
        next_uuid = 0, trailing_tasks = [], broadcast = []\<rparr>"
    by (simp add: log_error_def init_state_def)
  have n: "nm_nonce (nonce_manager_of (init_state 7)) = 7"
    by (simp add: init_state_def nonce_init_def)
  have r: "fst (buy_btcb default_config costly_chain buy_signal (init_state 7)) =
       Inl (RuntimeError GasFeeExceedsMax)"
    by (simp add: costly_buy_run)
  show ?thesis
    unfolding s by (intro conjI n f3 f1 r) simp_all
qed

text \<open>
  C9 fails on the fee ceiling. On the same chain \<open>sell_exact\<close>, the path of every
  take-profit exit, signs and sends the swap at a fee of 0.005 BNB, while \<open>_sell_btcb\<close>
  rejects a sell on that chain. The amount sent is the computed quantity (0.5 BTCB is
  5 * 10^17 wei), the minimum is slippage-bounded and the gas-price ceiling is applied.
\<close>

theorem sell_exact_skips_fee_ceiling:
  "MAX_GAS_FEE_BNB default_config < of_int (eth_gas_price costly_chain * 1000000) / 10 ^ 18
   \<and> estimate_gas costly_chain = (\<lambda>t. Some 1000000)
   \<and> (case sell_exact default_config costly_chain (1 / 2) 60000 (init_state 7) of
        (r, s) \<Rightarrow> (r, broadcast s, nm_nonce (nonce_manager_of s), length (trades s))) =
      (Inr ''0xabc'',
       [\<lparr>tx_nonce = 7, tx_gasPrice = 5000000000, tx_gas = Some 1000000,
         tx_call = SwapExactTokensForTokens 500000000000000000 998000000000001024
            [WBTC, USDT] 1700000060\<rparr>], 8, 1)
   \<and> fst (sell_btcb default_config costly_chain sell_signal (init_state 7)) =
       Inl (RuntimeError GasFeeExceedsMax)"
proof -
  have f1: "MAX_GAS_FEE_BNB default_config
      < of_int (eth_gas_price costly_chain * 1000000) / 10 ^ 18"
    using default_fee_ceiling by (simp add: costly_chain_def)
  have a: "balanceOf costly_chain WBTC \<noteq> 0"
    by (simp add: costly_chain_def sample_chain_def)
  have b: "\<not> MAX_GAS_PRICE_GWEI default_config < of_int (eth_gas_price costly_chain) / 10 ^ 9"
    by (simp add: costly_chain_def default_config_def)
  have amt: "trade_amount default_config sell_signal (10 ^ 21) = 100000000000000000000"
    using sample_trade_amount by (simp add: trade_amount_def sell_signal_def buy_signal_def)
  have c: "trade_amount default_config sell_signal (balanceOf costly_chain WBTC)
             \<le> allowance costly_chain WBTC"
    using amt by (simp add: costly_chain_def sample_chain_def)
  have d: "getAmountsOut costly_chain (trade_amount default_config sell_signal
             (balanceOf costly_chain WBTC)) [WBTC, WBNB, USDT]
           = Some [100000000000000000000, 10 ^ 18 + 1000]"
    using amt by (simp add: costly_chain_def sample_chain_def)
  have e: "\<forall>tx. estimate_gas costly_chain tx = Some 1000000"
    by (simp add: costly_chain_def)
  have s: "fst (sell_btcb default_config costly_chain sell_signal (init_state 7)) =
       Inl (RuntimeError GasFeeExceedsMax)"
    using sell_gas_fee_exceeded [OF a b c d _ e f1, of "init_state 7"] by simp
  have g: "estimate_gas costly_chain = (\<lambda>t. Some 1000000)"
    by (simp add: costly_chain_def)
  show ?thesis by (intro conjI f1 g s costly_sell_exact_run)
qed

section \<open>Properties of the transaction bumper\<close>

lemma bump_row_mined:
  "get_transaction_receipt ch (row_tx_hash row) = Some 1 \<Longrightarrow>
     bump_row cfg ch row st = (Inr (), mark_mined (row_tx_hash row) st)"
  by (simp add: bump_row_def)

lemma bump_row_bump:
  assumes "get_transaction_receipt ch (row_tx_hash row) \<noteq> Some 1"
    and "of_int (TX_TIMEOUT_SEC cfg) < time_now ch - row_sent_at row"
    and "row_bumps row < MAX_BUMPS cfg"
    and "get_transaction ch (row_tx_hash row) = Some raw"
    and "send_raw_transaction ch (raw\<lparr>tx_gasPrice := bump_gas_price cfg (tx_gasPrice raw)\<rparr>)
           = Some new_hash"
  shows "bump_row cfg ch row st =
     (Inr (), update_bump ch (row_tx_hash row) new_hash (bump_gas_price cfg (tx_gasPrice raw))
                (row_bumps row + 1)
                (st\<lparr>broadcast := broadcast st
                       @ [raw\<lparr>tx_gasPrice := bump_gas_price cfg (tx_gasPrice raw)\<rparr>]\<rparr>))"
  using assms
  by (auto simp: bump_row_def bump_gas_price_def Let_def split: option.splits)

lemma bump_row_idle:
  assumes "get_transaction_receipt ch (row_tx_hash row) \<noteq> Some 1"
    and "\<not> of_int (TX_TIMEOUT_SEC cfg) < time_now ch - row_sent_at row
         \<or> MAX_BUMPS cfg \<le> row_bumps row"
  shows "bump_row cfg ch row st = (Inr (), st)"
  using assms
  by (auto simp: bump_row_def Let_def split: option.splits)

lemma status_update_bump [simp]:
  "map row_status (pending_txs (update_bump ch h nh g b st)) = map row_status (pending_txs st)"
  by (simp add: update_bump_def comp_def if_distrib cong: if_cong)

lemma bump_row_keeps_status:
  assumes "get_transaction_receipt ch (row_tx_hash row) \<noteq> Some 1"
  shows "map row_status (pending_txs (snd (bump_row cfg ch row st)))
           = map row_status (pending_txs st)"
  using assms
  by (auto simp: bump_row_def Let_def split: option.splits)

lemma bump_rows_idle:
  assumes "\<forall>row \<in> set rows. get_transaction_receipt ch (row_tx_hash row) \<noteq> Some 1
             \<and> MAX_BUMPS cfg \<le> row_bumps row"
  shows "bump_rows cfg ch rows st = (Inr (), st)"
  using assms
  by (induction rows) (simp_all add: bump_row_idle)

lemma bump_loop_idle:
  assumes "\<forall>ch \<in> set chs. \<forall>row \<in> set (pending_rows st).
             get_transaction_receipt ch (row_tx_hash row) \<noteq> Some 1
             \<and> MAX_BUMPS cfg \<le> row_bumps row"
  shows "bump_loop cfg chs st = (Inr (), st)"
  using assms
proof (induction chs)
  case Nil
  show ?case by simp
next
  case (Cons ch chs)
  have "bump_tick cfg ch st = (Inr (), st)"
    unfolding bump_tick_def using Cons.prems by (intro bump_rows_idle) simp
  then show ?case using Cons by simp
qed

lemma pending_rows_member:
  "row \<in> set (pending_rows st) \<Longrightarrow>
     pool st \<and> row \<in> set (pending_txs st) \<and> row_status row = ''pending''"
  by (auto simp: pending_rows_def split: if_splits)

lemma bump_row_bump_effect:
  assumes "pool st"
    and "get_transaction_receipt ch (row_tx_hash row) \<noteq> Some 1"
    and "of_int (TX_TIMEOUT_SEC cfg) < time_now ch - row_sent_at row"
    and "row_bumps row < MAX_BUMPS cfg"
    and "get_transaction ch (row_tx_hash row) = Some raw"
    and "send_raw_transaction ch (raw\<lparr>tx_gasPrice := bump_gas_price cfg (tx_gasPrice raw)\<rparr>)
           = Some new_hash"
  shows "fst (bump_row cfg ch row st) = Inr ()
       \<and> broadcast (snd (bump_row cfg ch row st)) =
           broadcast st @ [raw\<lparr>tx_gasPrice := bump_gas_price cfg (tx_gasPrice raw)\<rparr>]
       \<and> tx_nonce (last (broadcast (snd (bump_row cfg ch row st)))) = tx_nonce raw
       \<and> pending_txs (snd (bump_row cfg ch row st)) =
           map (\<lambda>r. if row_tx_hash r = row_tx_hash row
                  then r\<lparr>row_tx_hash := new_hash,
                         row_gas_price := bump_gas_price cfg (tx_gasPrice raw),
                         row_bumps := row_bumps row + 1,
                         row_sent_at := time_now ch\<rparr>
                  else r) (pending_txs st)"
  using assms(1) by (simp add: bump_row_bump [OF assms(2-6)] update_bump_def)

lemma bump_gas_price_trunc:
  assumes "0 \<le> old_gas" "0 \<le> GAS_BUMP_FACTOR cfg"
  shows "of_int (bump_gas_price cfg old_gas) \<le> fmul (py_float old_gas) (GAS_BUMP_FACTOR cfg)
       \<and> fmul (py_float old_gas) (GAS_BUMP_FACTOR cfg) < of_int (bump_gas_price cfg old_gas) + 1"
proof -
  have "0 \<le> py_float old_gas" unfolding py_float_def using assms(1) by (intro fl_nonneg) simp
  then have "0 \<le> fmul (py_float old_gas) (GAS_BUMP_FACTOR cfg)"
    unfolding fmul_def using assms(2) by (intro fl_nonneg) simp
  then show ?thesis using py_int_nonneg by (simp add: bump_gas_price_def)
qed

lemma five_times_1_2: "py_int (fmul (py_float 5) (fl (12 / 10))) = 6"
  by code_simp

text \<open>
  C5. The body of the monitor loop, for a row read from the pending rows that has no
  receipt of status 1: past the timeout and under the bump limit (and with the node
  answering), the fetched transaction is sent again with its gas price replaced by
  \<open>int(old_gas * GAS_BUMP_FACTOR)\<close> and everything else, the nonce included, unchanged;
  the row gets the new hash and gas price, one more bump and the current time. The new
  price is the float product cut to whole wei; 5 at factor 1.2 gives 6. A row at the bump
  limit is left as it is, and a loop over any number of passes in which every pending row
  is at the limit and unconfirmed changes nothing: no resubmission, status still pending.
\<close>

theorem bump_replaces_by_fee:
  assumes "row \<in> set (pending_rows st)"
    and "get_transaction_receipt ch (row_tx_hash row) \<noteq> Some 1"
  shows "(of_int (TX_TIMEOUT_SEC cfg) < time_now ch - row_sent_at row
          \<and> row_bumps row < MAX_BUMPS cfg
          \<and> get_transaction ch (row_tx_hash row) = Some raw
          \<and> send_raw_transaction ch
               (raw\<lparr>tx_gasPrice := bump_gas_price cfg (tx_gasPrice raw)\<rparr>) = Some new_hash
          \<longrightarrow> fst (bump_row cfg ch row st) = Inr ()
              \<and> broadcast (snd (bump_row cfg ch row st)) =
                  broadcast st @ [raw\<lparr>tx_gasPrice := bump_gas_price cfg (tx_gasPrice raw)\<rparr>]
              \<and> tx_nonce (last (broadcast (snd (bump_row cfg ch row st)))) = tx_nonce raw
              \<and> pending_txs (snd (bump_row cfg ch row st)) =
                  map (\<lambda>r. if row_tx_hash r = row_tx_hash row
                         then r\<lparr>row_tx_hash := new_hash,
                                row_gas_price := bump_gas_price cfg (tx_gasPrice raw),
                                row_bumps := row_bumps row + 1,
                                row_sent_at := time_now ch\<rparr>
                         else r) (pending_txs st))
       \<and> (0 \<le> old_gas \<and> 0 \<le> GAS_BUMP_FACTOR cfg \<longrightarrow>
             of_int (bump_gas_price cfg old_gas) \<le> fmul (py_float old_gas) (GAS_BUMP_FACTOR cfg)
             \<and> fmul (py_float old_gas) (GAS_BUMP_FACTOR cfg)
                 < of_int (bump_gas_price cfg old_gas) + 1)
       \<and> (GAS_BUMP_FACTOR cfg = fl (12 / 10) \<longrightarrow> bump_gas_price cfg 5 = 6)
       \<and> (MAX_BUMPS cfg \<le> row_bumps row \<longrightarrow> bump_row cfg ch row st = (Inr (), st))
       \<and> ((\<forall>c \<in> set chs. \<forall>r \<in> set (pending_rows st).
               get_transaction_receipt c (row_tx_hash r) \<noteq> Some 1
               \<and> MAX_BUMPS cfg \<le> row_bumps r)
            \<longrightarrow> bump_loop cfg chs st = (Inr (), st))"
proof -
  have p: "pool st" using pending_rows_member [OF assms(1)] by simp
  have a: "of_int (TX_TIMEOUT_SEC cfg) < time_now ch - row_sent_at row
          \<and> row_bumps row < MAX_BUMPS cfg
          \<and> get_transaction ch (row_tx_hash row) = Some raw
          \<and> send_raw_transaction ch
               (raw\<lparr>tx_gasPrice := bump_gas_price cfg (tx_gasPrice raw)\<rparr>) = Some new_hash
          \<longrightarrow> fst (bump_row cfg ch row st) = Inr ()
              \<and> broadcast (snd (bump_row cfg ch row st)) =
                  broadcast st @ [raw\<lparr>tx_gasPrice := bump_gas_price cfg (tx_gasPrice raw)\<rparr>]
              \<and> tx_nonce (last (broadcast (snd (bump_row cfg ch row st)))) = tx_nonce raw
              \<and> pending_txs (snd (bump_row cfg ch row st)) =
                  map (\<lambda>r. if row_tx_hash r = row_tx_hash row
                         then r\<lparr>row_tx_hash := new_hash,
                                row_gas_price := bump_gas_price cfg (tx_gasPrice raw),
                                row_bumps := row_bumps row + 1,
                                row_sent_at := time_now ch\<rparr>
                         else r) (pending_txs st)"
    using bump_row_bump_effect [OF p assms(2)] by blast
  have b: "0 \<le> old_gas \<and> 0 \<le> GAS_BUMP_FACTOR cfg \<longrightarrow>
             of_int (bump_gas_price cfg old_gas) \<le> fmul (py_float old_gas) (GAS_BUMP_FACTOR cfg)
             \<and> fmul (py_float old_gas) (GAS_BUMP_FACTOR cfg)
                 < of_int (bump_gas_price cfg old_gas) + 1"
    using bump_gas_price_trunc by blast
  have c: "GAS_BUMP_FACTOR cfg = fl (12 / 10) \<longrightarrow> bump_gas_price cfg 5 = 6"
    using five_times_1_2 by (simp add: bump_gas_price_def)
  have d: "MAX_BUMPS cfg \<le> row_bumps row \<longrightarrow> bump_row cfg ch row st = (Inr (), st)"
    using bump_row_idle [OF assms(2)] by blast
  have e: "(\<forall>c \<in> set chs. \<forall>r \<in> set (pending_rows st).
               get_transaction_receipt c (row_tx_hash r) \<noteq> Some 1
               \<and> MAX_BUMPS cfg \<le> row_bumps r)
            \<longrightarrow> bump_loop cfg chs st = (Inr (), st)"
    using bump_loop_idle by blast
  show ?thesis by (intro conjI a b c d e)
qed

lemma stuck_row_pending: "stuck_row \<in> set (pending_rows stuck_state)"
  by (simp add: stuck_state_def pending_rows_def stuck_row_def)

lemma seven_times_1_2: "py_int (fmul (py_float 7) (fl (12 / 10))) = 8"
  by code_simp

lemma seven_times_1_2_float: "fmul (py_float 7) (fl (12 / 10)) \<noteq> 8"
  by code_simp

theorem bump_truncates_gas_price:
  "stuck_row \<in> set (pending_rows stuck_state)
   \<and> get_transaction_receipt odd_gas_chain (row_tx_hash stuck_row) = None
   \<and> get_transaction odd_gas_chain (row_tx_hash stuck_row) = Some (stuck_tx\<lparr>tx_gasPrice := 7\<rparr>)
   \<and> broadcast (snd (bump_row default_config odd_gas_chain stuck_row stuck_state)) =
       [stuck_tx\<lparr>tx_gasPrice := 8\<rparr>]
   \<and> map row_gas_price
         (pending_txs (snd (bump_row default_config odd_gas_chain stuck_row stuck_state))) = [8]
   \<and> (8 :: rat) \<noteq> 7 * GAS_BUMP_FACTOR default_config
   \<and> (8 :: rat) \<noteq> 7 * (12 / 10)
   \<and> fmul (py_float 7) (GAS_BUMP_FACTOR default_config) \<noteq> 8"
proof -
  have g: "bump_gas_price default_config 7 = 8"
    using seven_times_1_2 by (simp add: bump_gas_price_def default_config_def)
  have r: "get_transaction_receipt odd_gas_chain (row_tx_hash stuck_row) \<noteq> Some 1"
    by (simp add: odd_gas_chain_def stalled_chain_def sample_chain_def)
  have t: "of_int (TX_TIMEOUT_SEC default_config)
      < time_now odd_gas_chain - row_sent_at stuck_row"
    by (simp add: odd_gas_chain_def stalled_chain_def default_config_def stuck_row_def)
  have b: "row_bumps stuck_row < MAX_BUMPS default_config"
    by (simp add: default_config_def stuck_row_def)
  have f: "get_transaction odd_gas_chain (row_tx_hash stuck_row)
      = Some (stuck_tx\<lparr>tx_gasPrice := 7\<rparr>)"
    by (simp add: odd_gas_chain_def)
  have s: "send_raw_transaction odd_gas_chain
      (stuck_tx\<lparr>tx_gasPrice := 7,
                tx_gasPrice := bump_gas_price default_config (tx_gasPrice (stuck_tx\<lparr>tx_gasPrice := 7\<rparr>))\<rparr>)
      = Some ''0xdef''"
    by (simp add: odd_gas_chain_def stalled_chain_def)
  have p: "pool stuck_state" by (simp add: stuck_state_def)
  note eff = bump_row_bump_effect [OF p r t b f s]
  have b1: "broadcast (snd (bump_row default_config odd_gas_chain stuck_row stuck_state)) =
       [stuck_tx\<lparr>tx_gasPrice := 8\<rparr>]"
    using eff by (simp add: g stuck_state_def init_state_def)
  have b2: "map row_gas_price
         (pending_txs (snd (bump_row default_config odd_gas_chain stuck_row stuck_state))) = [8]"
    using eff by (simp add: g stuck_state_def)
  have n1: "(8 :: rat) \<noteq> 7 * GAS_BUMP_FACTOR default_config" by code_simp
  have n2: "(8 :: rat) \<noteq> 7 * (12 / 10)" by simp
  have n3: "fmul (py_float 7) (GAS_BUMP_FACTOR default_config) \<noteq> 8"
    using seven_times_1_2_float by (simp add: default_config_def)
  have r0: "get_transaction_receipt odd_gas_chain (row_tx_hash stuck_row) = None"
    by (simp add: odd_gas_chain_def stalled_chain_def sample_chain_def)
  show ?thesis by (intro conjI stuck_row_pending r0 f b1 b2 n1 n2 n3)
qed

theorem bump_replaces_by_fee_witness:
  "stuck_row \<in> set (pending_rows stuck_state)
   \<and> get_transaction_receipt stalled_chain (row_tx_hash stuck_row) \<noteq> Some 1
   \<and> of_int (TX_TIMEOUT_SEC default_config) < time_now stalled_chain - row_sent_at stuck_row
   \<and> row_bumps stuck_row < MAX_BUMPS default_config
   \<and> bump_gas_price default_config 5 = 6
   \<and> broadcast (snd (bump_row default_config stalled_chain stuck_row stuck_state)) =
       [stuck_tx\<lparr>tx_gasPrice := 6\<rparr>]
   \<and> tx_nonce (last (broadcast (snd (bump_row default_config stalled_chain stuck_row
                                        stuck_state)))) = 7
   \<and> pending_txs (snd (bump_row default_config stalled_chain stuck_row stuck_state)) =
       [\<lparr>row_tx_hash = ''0xdef'', row_nonce = 7, row_gas_price = 6,
         row_sent_at = 1700000121, row_bumps = 1, row_status = ''pending''\<rparr>]
   \<and> bump_row default_config stalled_chain (stuck_row\<lparr>row_bumps := 3\<rparr>)
        (stuck_state\<lparr>pending_txs := [stuck_row\<lparr>row_bumps := 3\<rparr>]\<rparr>)
       = (Inr (), stuck_state\<lparr>pending_txs := [stuck_row\<lparr>row_bumps := 3\<rparr>]\<rparr>)
   \<and> bump_loop default_config [stalled_chain, stalled_chain]
        (stuck_state\<lparr>pending_txs := [stuck_row\<lparr>row_bumps := 3\<rparr>]\<rparr>)
       = (Inr (), stuck_state\<lparr>pending_txs := [stuck_row\<lparr>row_bumps := 3\<rparr>]\<rparr>)"
proof -
  have r: "get_transaction_receipt stalled_chain (row_tx_hash stuck_row) \<noteq> Some 1"
    by (simp add: stalled_chain_def sample_chain_def)
  have t: "of_int (TX_TIMEOUT_SEC default_config)
      < time_now stalled_chain - row_sent_at stuck_row"
    by (simp add: stalled_chain_def default_config_def stuck_row_def)
  have b: "row_bumps stuck_row < MAX_BUMPS default_config"
    by (simp add: default_config_def stuck_row_def)
  have f: "get_transaction stalled_chain (row_tx_hash stuck_row) = Some stuck_tx"
    by (simp add: stalled_chain_def)
  have s: "send_raw_transaction stalled_chain
      (stuck_tx\<lparr>tx_gasPrice := bump_gas_price default_config (tx_gasPrice stuck_tx)\<rparr>)
      = Some ''0xdef''"
    by (simp add: stalled_chain_def)
  note main = bump_replaces_by_fee [OF stuck_row_pending r, of default_config]
  have g: "bump_gas_price default_config 5 = 6"
    by (rule main [THEN conjunct2, THEN conjunct2, THEN conjunct1, rule_format])
      (simp add: default_config_def)
  have g': "bump_gas_price default_config (tx_gasPrice stuck_tx) = 6"
    using g by (simp add: stuck_tx_def)
  note eff = main [THEN conjunct1, rule_format, OF conjI [OF t conjI [OF b conjI [OF f s]]]]
  have e1: "broadcast (snd (bump_row default_config stalled_chain stuck_row stuck_state)) =
       [stuck_tx\<lparr>tx_gasPrice := 6\<rparr>]"
    using eff by (simp add: g' stuck_state_def init_state_def)
  have e2: "tx_nonce (last (broadcast (snd (bump_row default_config stalled_chain stuck_row
                                        stuck_state)))) = 7"
    using eff by (simp add: stuck_tx_def)
  have e3: "pending_txs (snd (bump_row default_config stalled_chain stuck_row stuck_state)) =
       [\<lparr>row_tx_hash = ''0xdef'', row_nonce = 7, row_gas_price = 6,
         row_sent_at = 1700000121, row_bumps = 1, row_status = ''pending''\<rparr>]"
    using eff by (simp add: g' stuck_state_def stuck_row_def stalled_chain_def)
  let ?row = "stuck_row\<lparr>row_bumps := 3\<rparr>"
  let ?st = "stuck_state\<lparr>pending_txs := [?row]\<rparr>"
  have m: "?row \<in> set (pending_rows ?st)"
    by (simp add: stuck_state_def pending_rows_def stuck_row_def)
  have r3: "get_transaction_receipt stalled_chain (row_tx_hash ?row) \<noteq> Some 1"
    by (simp add: stalled_chain_def sample_chain_def)
  note lim = bump_replaces_by_fee [OF m r3, of default_config]
  have l1: "bump_row default_config stalled_chain ?row ?st = (Inr (), ?st)"
    by (rule lim [THEN conjunct2, THEN conjunct2, THEN conjunct2, THEN conjunct1, rule_format])
      (simp add: default_config_def)
  have l2: "bump_loop default_config [stalled_chain, stalled_chain] ?st = (Inr (), ?st)"
    by (rule lim [THEN conjunct2, THEN conjunct2, THEN conjunct2, THEN conjunct2, rule_format])
      (simp add: stuck_state_def pending_rows_def stuck_row_def stalled_chain_def
        sample_chain_def default_config_def)
  show ?thesis by (intro conjI stuck_row_pending r t b g e1 e2 e3 l1 l2)
qed

lemma mark_mined_effect:
  "pool st \<Longrightarrow> pending_txs (mark_mined h st) =
     map (\<lambda>r. if row_tx_hash r = h then r\<lparr>row_status := ''mined''\<rparr> else r) (pending_txs st)"
  by (simp add: mark_mined_def)

text \<open>
  C10. The loop body marks the rows of a hash mined exactly when the receipt is there with
  status 1. With any other answer (no receipt, or a receipt of status 0 for a transaction
  that was included and reverted) the status column is the same after the step as before
  it, whatever else the step does. A row with a receipt of status 0 goes the way of an
  unconfirmed one: past the timeout and under the bump limit it is sent again on the same
  nonce and stays pending; at the limit it is left alone.
\<close>

theorem reverted_receipt_stays_pending:
  "(get_transaction_receipt ch (row_tx_hash row) \<noteq> Some 1 \<longrightarrow>
      map row_status (pending_txs (snd (bump_row cfg ch row st)))
        = map row_status (pending_txs st))
   \<and> (get_transaction_receipt ch (row_tx_hash row) = Some 1 \<longrightarrow>
      bump_row cfg ch row st = (Inr (), mark_mined (row_tx_hash row) st)
      \<and> (pool st \<longrightarrow> pending_txs (snd (bump_row cfg ch row st)) =
            map (\<lambda>r. if row_tx_hash r = row_tx_hash row then r\<lparr>row_status := ''mined''\<rparr>
                        else r) (pending_txs st)))
   \<and> (get_transaction_receipt ch (row_tx_hash row) = Some 0
       \<and> row \<in> set (pending_rows st)
       \<and> of_int (TX_TIMEOUT_SEC cfg) < time_now ch - row_sent_at row
       \<and> row_bumps row < MAX_BUMPS cfg
       \<and> get_transaction ch (row_tx_hash row) = Some raw
       \<and> send_raw_transaction ch
            (raw\<lparr>tx_gasPrice := bump_gas_price cfg (tx_gasPrice raw)\<rparr>) = Some new_hash
       \<longrightarrow> broadcast (snd (bump_row cfg ch row st)) =
             broadcast st @ [raw\<lparr>tx_gasPrice := bump_gas_price cfg (tx_gasPrice raw)\<rparr>]
           \<and> tx_nonce (last (broadcast (snd (bump_row cfg ch row st)))) = tx_nonce raw
           \<and> pending_txs (snd (bump_row cfg ch row st)) =
               map (\<lambda>r. if row_tx_hash r = row_tx_hash row
                      then r\<lparr>row_tx_hash := new_hash,
                             row_gas_price := bump_gas_price cfg (tx_gasPrice raw),
                             row_bumps := row_bumps row + 1,
                             row_sent_at := time_now ch\<rparr>
                      else r) (pending_txs st))
   \<and> (get_transaction_receipt ch (row_tx_hash row) = Some 0
       \<and> MAX_BUMPS cfg \<le> row_bumps row
       \<longrightarrow> bump_row cfg ch row st = (Inr (), st))"
proof (intro conjI impI)
  assume "get_transaction_receipt ch (row_tx_hash row) \<noteq> Some 1"
  then show "map row_status (pending_txs (snd (bump_row cfg ch row st)))
        = map row_status (pending_txs st)"
    by (rule bump_row_keeps_status)
next
  assume "get_transaction_receipt ch (row_tx_hash row) = Some 1"
  then show "bump_row cfg ch row st = (Inr (), mark_mined (row_tx_hash row) st)"
    by (rule bump_row_mined)
next
  assume "get_transaction_receipt ch (row_tx_hash row) = Some 1" and "pool st"
  then show "pending_txs (snd (bump_row cfg ch row st)) =
            map (\<lambda>r. if row_tx_hash r = row_tx_hash row then r\<lparr>row_status := ''mined''\<rparr>
                        else r) (pending_txs st)"
    by (simp add: bump_row_mined mark_mined_effect)
next
  assume h: "get_transaction_receipt ch (row_tx_hash row) = Some 0
       \<and> row \<in> set (pending_rows st)
       \<and> of_int (TX_TIMEOUT_SEC cfg) < time_now ch - row_sent_at row
       \<and> row_bumps row < MAX_BUMPS cfg
       \<and> get_transaction ch (row_tx_hash row) = Some raw
       \<and> send_raw_transaction ch
            (raw\<lparr>tx_gasPrice := bump_gas_price cfg (tx_gasPrice raw)\<rparr>) = Some new_hash"
  then have p: "pool st" using pending_rows_member by blast
  have r: "get_transaction_receipt ch (row_tx_hash row) \<noteq> Some 1" using h by simp
  note eff = bump_row_bump_effect [OF p r, of cfg raw new_hash]
  show "broadcast (snd (bump_row cfg ch row st)) =
             broadcast st @ [raw\<lparr>tx_gasPrice := bump_gas_price cfg (tx_gasPrice raw)\<rparr>]"
    using eff h by blast
  show "tx_nonce (last (broadcast (snd (bump_row cfg ch row st)))) = tx_nonce raw"
    using eff h by blast
  show "pending_txs (snd (bump_row cfg ch row st)) =
               map (\<lambda>r. if row_tx_hash r = row_tx_hash row
                      then r\<lparr>row_tx_hash := new_hash,
                             row_gas_price := bump_gas_price cfg (tx_gasPrice raw),
                             row_bumps := row_bumps row + 1,
                             row_sent_at := time_now ch\<rparr>
                      else r) (pending_txs st)"
    using eff h by blast
next
  assume "get_transaction_receipt ch (row_tx_hash row) = Some 0
       \<and> MAX_BUMPS cfg \<le> row_bumps row"
  then show "bump_row cfg ch row st = (Inr (), st)"
    by (intro bump_row_idle) simp_all
qed

theorem reverted_receipt_stays_pending_witness:
  "get_transaction_receipt reverted_chain (row_tx_hash stuck_row) = Some 0
   \<and> stuck_row \<in> set (pending_rows stuck_state)
   \<and> of_int (TX_TIMEOUT_SEC default_config) < time_now reverted_chain - row_sent_at stuck_row
   \<and> row_bumps stuck_row < MAX_BUMPS default_config
   \<and> map row_status (pending_txs (snd (bump_row default_config reverted_chain stuck_row
                                          stuck_state))) = [''pending'']
   \<and> broadcast (snd (bump_row default_config reverted_chain stuck_row stuck_state)) =
       [stuck_tx\<lparr>tx_gasPrice := bump_gas_price default_config 5\<rparr>]
   \<and> tx_nonce (last (broadcast (snd (bump_row default_config reverted_chain stuck_row
                                        stuck_state)))) = 7
   \<and> bump_row default_config (reverted_chain\<lparr>get_transaction_receipt := (\<lambda>h. Some 1)\<rparr>)
         stuck_row stuck_state
       = (Inr (), stuck_state\<lparr>pending_txs := [stuck_row\<lparr>row_status := ''mined''\<rparr>]\<rparr>)"
proof -
  have r0: "get_transaction_receipt reverted_chain (row_tx_hash stuck_row) = Some 0"
    by (simp add: reverted_chain_def)
  have r: "get_transaction_receipt reverted_chain (row_tx_hash stuck_row) \<noteq> Some 1"
    by (simp add: reverted_chain_def)
  have t: "of_int (TX_TIMEOUT_SEC default_config)
      < time_now reverted_chain - row_sent_at stuck_row"
    by (simp add: reverted_chain_def stalled_chain_def default_config_def stuck_row_def)
  have b: "row_bumps stuck_row < MAX_BUMPS default_config"
    by (simp add: default_config_def stuck_row_def)
  have f: "get_transaction reverted_chain (row_tx_hash stuck_row) = Some stuck_tx"
    by (simp add: reverted_chain_def stalled_chain_def)
  have s: "send_raw_transaction reverted_chain
      (stuck_tx\<lparr>tx_gasPrice := bump_gas_price default_config (tx_gasPrice stuck_tx)\<rparr>)
      = Some ''0xdef''"
    by (simp add: reverted_chain_def stalled_chain_def)
  note main = reverted_receipt_stays_pending
    [of reverted_chain stuck_row default_config stuck_state stuck_tx "''0xdef''"]
  have "map row_status (pending_txs (snd (bump_row default_config reverted_chain stuck_row
                                          stuck_state))) = map row_status (pending_txs stuck_state)"
    by (rule main [THEN conjunct1, rule_format, OF r])
  then have s1: "map row_status (pending_txs (snd (bump_row default_config reverted_chain
                    stuck_row stuck_state))) = [''pending'']"
    by (simp add: stuck_state_def stuck_row_def)
  note eff = main [THEN conjunct2, THEN conjunct2, THEN conjunct1, rule_format,
      OF conjI [OF r0 conjI [OF stuck_row_pending conjI [OF t conjI [OF b conjI [OF f s]]]]]]
  have e1: "broadcast (snd (bump_row default_config reverted_chain stuck_row stuck_state)) =
       [stuck_tx\<lparr>tx_gasPrice := bump_gas_price default_config 5\<rparr>]"
    using eff by (simp add: stuck_state_def init_state_def stuck_tx_def)
  have e2: "tx_nonce (last (broadcast (snd (bump_row default_config reverted_chain stuck_row
                                        stuck_state)))) = 7"
    using eff by (simp add: stuck_tx_def)
  let ?ch = "reverted_chain\<lparr>get_transaction_receipt := (\<lambda>h. Some 1)\<rparr>"
  have m1: "get_transaction_receipt ?ch (row_tx_hash stuck_row) = Some 1" by simp
  have "bump_row default_config ?ch stuck_row stuck_state
      = (Inr (), mark_mined (row_tx_hash stuck_row) stuck_state)"
    by (rule reverted_receipt_stays_pending
        [THEN conjunct2, THEN conjunct1, rule_format, THEN conjunct1, OF m1])
  then have e3: "bump_row default_config ?ch stuck_row stuck_state
       = (Inr (), stuck_state\<lparr>pending_txs := [stuck_row\<lparr>row_status := ''mined''\<rparr>]\<rparr>)"
    by (simp add: mark_mined_def stuck_state_def)
  show ?thesis by (intro conjI r0 stuck_row_pending t b s1 e1 e2 e3)
qed

section \<open>Properties of the trailing-stop task\<close>

lemma trailing_tick_peak:
  "fst (fst (trailing_tick cfg ch entry_price peak st)) =
     (case get_dex_price ch of None \<Rightarrow> peak | Some current \<Rightarrow> max peak current)"
  by (auto simp: trailing_tick_def Let_def max_def split: option.splits)

lemma observed_Cons:
  "set (List.map_filter get_dex_price (ch # chs)) =
     (case get_dex_price ch of None \<Rightarrow> {} | Some c \<Rightarrow> {c})
       \<union> set (List.map_filter get_dex_price chs)"
  by (simp split: option.splits)

lemma trailing_loop_trace_Cons:
  "fst (trailing_loop cfg entry_price (ch # chs) peak st) =
     (if snd (fst (trailing_tick cfg ch entry_price peak st))
      then fst (fst (trailing_tick cfg ch entry_price peak st))
             # fst (trailing_loop cfg entry_price chs
                      (fst (fst (trailing_tick cfg ch entry_price peak st)))
                      (snd (trailing_tick cfg ch entry_price peak st)))
      else [fst (fst (trailing_tick cfg ch entry_price peak st))])"
  by (simp add: split_beta Let_def)

lemma trailing_loop_length:
  "length (fst (trailing_loop cfg entry_price chs peak st)) \<le> length chs"
proof (induction chs arbitrary: peak st)
  case Nil
  show ?case by simp
next
  case (Cons ch chs)
  show ?case
    unfolding trailing_loop_trace_Cons using Cons.IH by simp
qed

lemma trailing_loop_ge:
  "p \<in> set (fst (trailing_loop cfg entry_price chs peak st)) \<Longrightarrow> peak \<le> p"
proof (induction chs arbitrary: peak st)
  case Nil
  then show ?case by simp
next
  case (Cons ch chs)
  let ?peak1 = "fst (fst (trailing_tick cfg ch entry_price peak st))"
  have up: "peak \<le> ?peak1"
    by (simp add: trailing_tick_peak split: option.splits)
  from Cons.prems have "p = ?peak1 \<or>
      p \<in> set (fst (trailing_loop cfg entry_price chs ?peak1
                      (snd (trailing_tick cfg ch entry_price peak st))))"
    unfolding trailing_loop_trace_Cons by (auto split: if_splits)
  then show ?case
  proof
    assume "p = ?peak1" then show ?thesis using up by simp
  next
    assume "p \<in> set (fst (trailing_loop cfg entry_price chs ?peak1
                      (snd (trailing_tick cfg ch entry_price peak st))))"
    then have "?peak1 \<le> p" by (rule Cons.IH)
    then show ?thesis using up by simp
  qed
qed

lemma trailing_loop_sorted:
  "sorted (fst (trailing_loop cfg entry_price chs peak st))"
proof (induction chs arbitrary: peak st)
  case Nil
  show ?case by simp
next
  case (Cons ch chs)
  show ?case
    unfolding trailing_loop_trace_Cons
    using Cons.IH by (auto dest: trailing_loop_ge)
qed

lemma trailing_loop_max:
  "i < length (fst (trailing_loop cfg entry_price chs peak st)) \<Longrightarrow>
     fst (trailing_loop cfg entry_price chs peak st) ! i =
       Max (insert peak (set (List.map_filter get_dex_price (take (Suc i) chs))))"
proof (induction chs arbitrary: peak st i)
  case Nil
  then show ?case by simp
next
  case (Cons ch chs)
  let ?peak1 = "fst (fst (trailing_tick cfg ch entry_price peak st))"
  let ?st1 = "snd (trailing_tick cfg ch entry_price peak st)"
  let ?rest = "fst (trailing_loop cfg entry_price chs ?peak1 ?st1)"
  have p1: "?peak1 = (case get_dex_price ch of None \<Rightarrow> peak | Some c \<Rightarrow> max peak c)"
    by (rule trailing_tick_peak)
  show ?case
  proof (cases i)
    case 0
    have "fst (trailing_loop cfg entry_price (ch # chs) peak st) ! 0 = ?peak1"
      unfolding trailing_loop_trace_Cons by simp
    also have "\<dots> = Max (insert peak (set (List.map_filter get_dex_price [ch])))"
      unfolding p1 by (simp add: max.commute split: option.splits)
    finally show ?thesis using 0 by simp
  next
    case (Suc k)
    with Cons.prems have go: "snd (fst (trailing_tick cfg ch entry_price peak st))"
      and k: "k < length ?rest"
      unfolding trailing_loop_trace_Cons by (auto split: if_splits)
    have "fst (trailing_loop cfg entry_price (ch # chs) peak st) ! i = ?rest ! k"
      unfolding trailing_loop_trace_Cons using go Suc by simp
    also have "\<dots> = Max (insert ?peak1 (set (List.map_filter get_dex_price (take (Suc k) chs))))"
      by (rule Cons.IH [OF k])
    also have "\<dots> = Max (insert peak
        (set (List.map_filter get_dex_price (take (Suc i) (ch # chs)))))"
    proof (cases "get_dex_price ch")
      case None
      then show ?thesis unfolding p1 Suc by simp
    next
      case (Some c)
      let ?S = "set (List.map_filter get_dex_price (take (Suc k) chs))"
      have f: "finite ?S" by simp
      have "Max (insert (max peak c) ?S) = Max (insert peak (insert c ?S))"
      proof (cases "?S = {}")
        case True then show ?thesis by (simp add: max.commute)
      next
        case False
        then show ?thesis using f by (simp add: max.assoc max.commute max.left_commute)
      qed
      then show ?thesis unfolding p1 Suc using Some by simp
    qed
    finally show ?thesis .
  qed
qed

text \<open>
  C7 as stated fails. The peak starts at the entry price, which is not a price the monitor
  observed. With an entry price of 1000 and a first observation of 999, neither stop
  fires, the loop goes on, and the peak after the tick is 1000 while the maximum
  observed price is 999.
\<close>

theorem trailing_peak_starts_at_entry:
  "fst (monitor_trailing_stop default_config 1000
          [sample_chain\<lparr>get_dex_price := Some 999\<rparr>, sample_chain] (init_state 7))
     = [1000, 1000]
   \<and> List.map_filter get_dex_price [sample_chain\<lparr>get_dex_price := Some 999\<rparr>] = [999]
   \<and> (1000 :: rat) \<noteq> Max (set [999])"
proof -
  have a: "fst (monitor_trailing_stop default_config 1000
          [sample_chain\<lparr>get_dex_price := Some 999\<rparr>, sample_chain] (init_state 7))
     = [1000, 1000]"
    by code_simp
  have b: "List.map_filter get_dex_price [sample_chain\<lparr>get_dex_price := Some 999\<rparr>] = [999]"
    by simp
  have c: "(1000 :: rat) \<noteq> Max (set [999])" by simp
  show ?thesis by (intro conjI a b c)
qed

text \<open>
  C7, amended. For any sequence of ticks, the value of \<open>peak\<close> after each tick the monitor
  ran is non-decreasing from tick to tick, never below the entry price, and equal to the
  maximum of the entry price and the prices observed up to that tick; a tick whose price
  is unavailable leaves it unchanged.
\<close>

theorem trailing_peak_is_running_max:
  "length (fst (monitor_trailing_stop cfg entry_price chs st)) \<le> length chs
   \<and> sorted (fst (monitor_trailing_stop cfg entry_price chs st))
   \<and> (\<forall>p \<in> set (fst (monitor_trailing_stop cfg entry_price chs st)). entry_price \<le> p)
   \<and> (\<forall>i < length (fst (monitor_trailing_stop cfg entry_price chs st)).
         fst (monitor_trailing_stop cfg entry_price chs st) ! i =
           Max (insert entry_price (set (List.map_filter get_dex_price (take (Suc i) chs)))))"
  unfolding monitor_trailing_stop_def
proof (intro conjI ballI allI impI)
  show "length (fst (trailing_loop cfg entry_price chs entry_price st)) \<le> length chs"
    by (rule trailing_loop_length)
  show "sorted (fst (trailing_loop cfg entry_price chs entry_price st))"
    by (rule trailing_loop_sorted)
next
  fix p assume "p \<in> set (fst (trailing_loop cfg entry_price chs entry_price st))"
  then show "entry_price \<le> p" by (rule trailing_loop_ge)
next
  fix i assume "i < length (fst (trailing_loop cfg entry_price chs entry_price st))"
  then show "fst (trailing_loop cfg entry_price chs entry_price st) ! i =
           Max (insert entry_price (set (List.map_filter get_dex_price (take (Suc i) chs))))"
    by (rule trailing_loop_max)
qed

theorem trailing_peak_is_running_max_witness:
  "fst (monitor_trailing_stop default_config 1000
          [sample_chain\<lparr>get_dex_price := Some 1002\<rparr>, sample_chain,
           sample_chain\<lparr>get_dex_price := Some 1001\<rparr>] (init_state 7))
     = [1002, 1002, 1002]
   \<and> (2 :: nat) < length [1002, 1002, 1002 :: rat]
   \<and> [1002, 1002, 1002 :: rat] ! 2 =
       Max (insert 1000 (set (List.map_filter get_dex_price (take (Suc 2)
          [sample_chain\<lparr>get_dex_price := Some 1002\<rparr>, sample_chain,
           sample_chain\<lparr>get_dex_price := Some 1001\<rparr>]))))
   \<and> sorted [1002, 1002, 1002 :: rat]"
proof -
  let ?chs = "[sample_chain\<lparr>get_dex_price := Some 1002\<rparr>, sample_chain,
           sample_chain\<lparr>get_dex_price := Some 1001\<rparr>]"
  have run: "fst (monitor_trailing_stop default_config 1000 ?chs (init_state 7))
     = [1002, 1002, 1002]"
    by code_simp
  note main = trailing_peak_is_running_max [of default_config 1000 ?chs "init_state 7"]
  have len: "(2 :: nat) < length [1002, 1002, 1002 :: rat]" by simp
  have "\<forall>i < length [1002, 1002, 1002 :: rat]. [1002, 1002, 1002 :: rat] ! i =
           Max (insert 1000 (set (List.map_filter get_dex_price (take (Suc i) ?chs))))"
    using main [THEN conjunct2, THEN conjunct2, THEN conjunct2] unfolding run .
  then have m: "[1002, 1002, 1002 :: rat] ! 2 =
       Max (insert 1000 (set (List.map_filter get_dex_price (take (Suc 2) ?chs))))"
    using len by blast
  have s: "sorted [1002, 1002, 1002 :: rat]"
    using main [THEN conjunct2, THEN conjunct1] unfolding run .
  show ?thesis by (intro conjI run len m s)
qed

section \<open>Properties of the nonce manager\<close>

lemma run_schedule_values:
  "map snd (fst (run_schedule cs m)) = map (\<lambda>i. nm_nonce m + int i) [0..<length cs]"
proof (induction cs arbitrary: m)
  case Nil
  show ?case by simp
next
  case (Cons c cs)
  have step: "map (\<lambda>i. nm_nonce m + int i) [0..<Suc (length cs)] =
      nm_nonce m # map (\<lambda>i. nm_nonce m + 1 + int i) [0..<length cs]"
    by (simp add: upt_conv_Cons map_Suc_upt [symmetric] del: upt_Suc)
  show ?case
    using Cons.IH [of "m\<lparr>nm_nonce := nm_nonce m + 1\<rparr>"] step
    by (simp add: next_nonce_def split_beta Let_def del: upt_Suc)
qed

lemma run_schedule_callers: "map fst (fst (run_schedule cs m)) = cs"
  by (induction cs arbitrary: m) (simp_all add: split_beta Let_def)

lemma run_schedule_counter: "nm_nonce (snd (run_schedule cs m)) = nm_nonce m + int (length cs)"
  by (induction cs arbitrary: m) (simp_all add: next_nonce_def split_beta Let_def)

text \<open>
  C1. For the base value the manager was initialised with, the calls of any schedule of
  N callers return base, base+1, ..., base+N-1 in the order served: the returned values
  are pairwise distinct, their set is exactly {base, ..., base+N-1}, every caller is
  served, and the counter ends at base+N.
\<close>

theorem nonce_sequence_gap_free:
  "map snd (fst (run_schedule cs (nonce_init base))) = map (\<lambda>i. base + int i) [0..<length cs]
   \<and> distinct (map snd (fst (run_schedule cs (nonce_init base))))
   \<and> set (map snd (fst (run_schedule cs (nonce_init base)))) = {base ..< base + int (length cs)}
   \<and> map fst (fst (run_schedule cs (nonce_init base))) = cs
   \<and> nm_nonce (snd (run_schedule cs (nonce_init base))) = base + int (length cs)"
proof -
  let ?vs = "map snd (fst (run_schedule cs (nonce_init base)))"
  have vs: "?vs = map (\<lambda>i. base + int i) [0..<length cs]"
    using run_schedule_values [of cs "nonce_init base"] by (simp add: nonce_init_def)
  have inj: "inj_on (\<lambda>i. base + int i) (set [0..<length cs])"
    by (rule inj_onI) simp
  have d: "distinct ?vs"
    unfolding vs using inj by (simp add: distinct_map del: upt_Suc set_upt)
  have s: "set ?vs = {base ..< base + int (length cs)}"
  proof
    show "set ?vs \<subseteq> {base ..< base + int (length cs)}"
      unfolding vs by auto
    show "{base ..< base + int (length cs)} \<subseteq> set ?vs"
    proof
      fix v assume "v \<in> {base ..< base + int (length cs)}"
      then have "nat (v - base) < length cs" and "v = base + int (nat (v - base))"
        by auto
      then show "v \<in> set ?vs"
        unfolding vs by (metis (mono_tags, lifting) atLeast0LessThan imageI lessThan_iff
            set_map set_upt)
    qed
  qed
  show ?thesis
    using vs d s run_schedule_callers [of cs "nonce_init base"]
      run_schedule_counter [of cs "nonce_init base"]
    by (simp add: nonce_init_def)
qed

section \<open>Properties of the loss streak\<close>

lemma losses_loop_takeWhile:
  "losses_loop count rows = count + length (takeWhile (\<lambda>r. r < 0) rows)"
  by (induction rows arbitrary: count) simp_all

text \<open>
  C8 as stated fails: for the most-recent-first sequence [-1, -1, -1, +2] the most recent
  trade is a loss, the loop counts the three leading losses and stops at +2, so the
  function returns 3, not 0.
\<close>

theorem consecutive_losses_three_then_win:
  "consecutive_losses (Some [- 1, - 1, - 1, 2]) = 3
   \<and> consecutive_losses (Some [- 1, - 1, - 1, 2]) \<noteq> 0"
  by (simp add: consecutive_losses_def)

text \<open>
  C8, amended. \<open>consecutive_losses\<close> walks the trades most recent first and returns the
  length of the leading run of strictly negative \<open>profit_usd\<close> values; the first value
  that is not negative ends the walk. For [-1, -1, -1, +2] it returns 3, for
  [+2, -1, -1, -1] it returns 0, and for [-1, -1, +2, -1] it returns 2.
\<close>

theorem consecutive_losses_leading_run:
  "consecutive_losses (Some rows) = length (takeWhile (\<lambda>r. r < 0) rows)
   \<and> consecutive_losses (Some [- 1, - 1, - 1, 2]) = 3
   \<and> consecutive_losses (Some [2, - 1, - 1, - 1]) = 0
   \<and> consecutive_losses (Some [- 1, - 1, 2, - 1]) = 2"
  by (simp add: consecutive_losses_def losses_loop_takeWhile)

end
